theory Spec2Isabelle
  imports Complex_Main "HOL-Library.Word"
begin
section \<open>Error recovery manager (frontend/src/services/error-recovery.ts)\<close>

text \<open>
  JavaScript numbers are modelled as exact numbers: counters and attempt numbers as
  \<open>int\<close>, delays and clock readings (milliseconds) as \<open>real\<close>. Infinity, NaN and
  rounding are outside the model.
\<close>

datatype CircuitBreakerState = CLOSED | OPEN | HALF_OPEN

datatype RecoveryStrategy =
  IMMEDIATE_RETRY | EXPONENTIAL_BACKOFF | LINEAR_BACKOFF | CIRCUIT_BREAKER | FALLBACK | NONE

datatype NetworkQuality = EXCELLENT | GOOD | FAIR | POOR | OFFLINE

datatype SSEErrorType =
  CONNECTION_FAILED | CONNECTION_LOST | NETWORK_ERROR | TIMEOUT_ERROR | SERVER_ERROR
  | AUTH_ERROR | PARSE_ERROR | MAX_RETRIES_EXCEEDED

datatype Severity = low | medium | high | critical

record ErrorRecoveryConfig =
  configMaxRetries :: int
  initialDelay :: real
  maxDelay :: real
  backoffMultiplier :: real
  jitterEnabled :: bool
  circuitBreakerThreshold :: int
  circuitBreakerTimeout :: real
  networkQualityCheckInterval :: real
  fallbackEnabled :: bool

record ErrorClassification =
  type :: SSEErrorType
  severity :: Severity
  retryable :: bool
  strategy :: RecoveryStrategy
  maxRetries :: int
  baseDelay :: real

record RecoveryAttempt =
  attempt :: int
  attemptStrategy :: RecoveryStrategy
  delay :: real
  timestamp :: real
  success :: bool

datatype ListenerCall =
  OnRecoveryAttempt RecoveryAttempt
  | OnCircuitBreakerStateChange CircuitBreakerState
  | OnNetworkQualityChange NetworkQuality

text \<open>
  The fields of the class. \<open>networkMetrics\<close> keeps the one field of the metrics object
  that the modelled methods read, its quality (\<open>None\<close> is \<open>null\<close>). \<open>listenerCalls\<close>
  records the calls made to the registered listeners, oldest first. Two field names are
  changed because a record here cannot share them: \<open>configMaxRetries\<close> is
  \<open>maxRetries\<close> of the configuration and \<open>attemptStrategy\<close> is \<open>strategy\<close> of a
  recovery attempt. The error object that a failed attempt carries is left out.
\<close>

record ErrorRecoveryManager =
  config :: ErrorRecoveryConfig
  circuitBreakerState :: CircuitBreakerState
  failureCount :: int
  lastFailureTime :: real
  recoveryAttempts :: "RecoveryAttempt list"
  networkMetrics :: "NetworkQuality option"
  listenerCalls :: "ListenerCall list"

definition DEFAULT_RECOVERY_CONFIG :: ErrorRecoveryConfig where
  "DEFAULT_RECOVERY_CONFIG =
     \<lparr>configMaxRetries = 5, initialDelay = 1000, maxDelay = 30000, backoffMultiplier = 2,
      jitterEnabled = True, circuitBreakerThreshold = 5, circuitBreakerTimeout = 60000,
      networkQualityCheckInterval = 30000, fallbackEnabled = True\<rparr>"

fun ERROR_CLASSIFICATION_RULES :: "SSEErrorType \<Rightarrow> ErrorClassification" where
  "ERROR_CLASSIFICATION_RULES CONNECTION_FAILED =
     \<lparr>type = CONNECTION_FAILED, severity = high, retryable = True,
      strategy = EXPONENTIAL_BACKOFF, maxRetries = 5, baseDelay = 2000\<rparr>"
| "ERROR_CLASSIFICATION_RULES CONNECTION_LOST =
     \<lparr>type = CONNECTION_LOST, severity = medium, retryable = True,
      strategy = EXPONENTIAL_BACKOFF, maxRetries = 3, baseDelay = 1000\<rparr>"
| "ERROR_CLASSIFICATION_RULES NETWORK_ERROR =
     \<lparr>type = NETWORK_ERROR, severity = high, retryable = True,
      strategy = CIRCUIT_BREAKER, maxRetries = 3, baseDelay = 5000\<rparr>"
| "ERROR_CLASSIFICATION_RULES TIMEOUT_ERROR =
     \<lparr>type = TIMEOUT_ERROR, severity = medium, retryable = True,
      strategy = LINEAR_BACKOFF, maxRetries = 3, baseDelay = 2000\<rparr>"
| "ERROR_CLASSIFICATION_RULES SERVER_ERROR =
     \<lparr>type = SERVER_ERROR, severity = high, retryable = True,
      strategy = EXPONENTIAL_BACKOFF, maxRetries = 2, baseDelay = 3000\<rparr>"
| "ERROR_CLASSIFICATION_RULES AUTH_ERROR =
     \<lparr>type = AUTH_ERROR, severity = critical, retryable = False,
      strategy = NONE, maxRetries = 0, baseDelay = 0\<rparr>"
| "ERROR_CLASSIFICATION_RULES PARSE_ERROR =
     \<lparr>type = PARSE_ERROR, severity = low, retryable = False,
      strategy = NONE, maxRetries = 0, baseDelay = 0\<rparr>"
| "ERROR_CLASSIFICATION_RULES MAX_RETRIES_EXCEEDED =
     \<lparr>type = MAX_RETRIES_EXCEEDED, severity = critical, retryable = False,
      strategy = FALLBACK, maxRetries = 0, baseDelay = 0\<rparr>"

text \<open>The constructor: the configuration given, every other field at its initialiser.\<close>

definition createErrorRecoveryManager :: "ErrorRecoveryConfig \<Rightarrow> ErrorRecoveryManager" where
  "createErrorRecoveryManager cfg =
     \<lparr>config = cfg, circuitBreakerState = CLOSED, failureCount = 0, lastFailureTime = 0,
      recoveryAttempts = [], networkMetrics = None, listenerCalls = []\<rparr>"

definition classifyError :: "ErrorRecoveryManager \<Rightarrow> SSEErrorType \<Rightarrow> ErrorClassification" where
  "classifyError m errorType =
     (let baseClassification = ERROR_CLASSIFICATION_RULES errorType in
      if networkMetrics m = Some POOR then
        baseClassification
          \<lparr>strategy := LINEAR_BACKOFF,
           maxRetries := max 1 (maxRetries baseClassification div 2),
           baseDelay := baseDelay baseClassification * 2\<rparr>
      else if networkMetrics m = Some OFFLINE then
        baseClassification\<lparr>retryable := False, strategy := FALLBACK\<rparr>
      else baseClassification)"

text \<open>
  \<open>calculateDelay\<close> in two parts: the \<open>switch\<close> over the strategy, which gives the delay
  before jitter, and then the jitter and the ceiling. \<open>rnd\<close> is the value that
  \<open>Math.random()\<close> returns when it is drawn.
\<close>

definition strategyDelay :: "ErrorRecoveryManager \<Rightarrow> ErrorClassification \<Rightarrow> int \<Rightarrow> real" where
  "strategyDelay m classification attemptCount =
     (case strategy classification of
        IMMEDIATE_RETRY \<Rightarrow> 0
      | LINEAR_BACKOFF \<Rightarrow> baseDelay classification * of_int attemptCount
      | EXPONENTIAL_BACKOFF \<Rightarrow>
          baseDelay classification * power_int (backoffMultiplier (config m)) (attemptCount - 1)
      | CIRCUIT_BREAKER \<Rightarrow>
          (if circuitBreakerState m = OPEN then circuitBreakerTimeout (config m)
           else baseDelay classification)
      | _ \<Rightarrow> baseDelay classification)"

definition calculateDelay ::
  "ErrorRecoveryManager \<Rightarrow> ErrorClassification \<Rightarrow> int \<Rightarrow> real \<Rightarrow> real" where
  "calculateDelay m classification attemptCount rnd =
     (let d = strategyDelay m classification attemptCount;
          d' = (if jitterEnabled (config m) \<and> d > 0 then d + d * 0.1 * rnd else d)
      in min d' (maxDelay (config m)))"


subsection \<open>The circuit breaker and the recovery loop\<close>

text \<open>
  What \<open>attemptRecovery\<close> reads from outside the object is made explicit. The world
  holds the clock (\<open>Date.now()\<close>) and the number of times the supplied \<open>recoveryFn\<close>
  has been executed. The environment says, for the attempt with a given number, whether
  \<open>recoveryFn\<close> resolves (\<open>True\<close>) or rejects, how long it runs, and what
  \<open>Math.random()\<close> returns in that attempt's \<open>calculateDelay\<close>. \<open>sleep\<close> advances
  the clock by the delay. The network quality does not change while one call runs.
\<close>

record World =
  now :: real
  recoveryFnCalls :: nat

record Env =
  recoveryFn :: "int \<Rightarrow> bool"
  recoveryFnDuration :: "int \<Rightarrow> real"
  mathRandom :: "int \<Rightarrow> real"

definition sleep :: "real \<Rightarrow> World \<Rightarrow> World" where
  "sleep ms w = w\<lparr>now := now w + ms\<rparr>"

definition setCircuitBreakerState ::
  "CircuitBreakerState \<Rightarrow> ErrorRecoveryManager \<Rightarrow> ErrorRecoveryManager" where
  "setCircuitBreakerState s m =
     (if circuitBreakerState m \<noteq> s then
        m\<lparr>circuitBreakerState := s,
          listenerCalls := listenerCalls m @ [OnCircuitBreakerStateChange s]\<rparr>
      else m)"

definition handleMaxRetriesExceeded :: "real \<Rightarrow> ErrorRecoveryManager \<Rightarrow> ErrorRecoveryManager" where
  "handleMaxRetriesExceeded dateNow m = (setCircuitBreakerState OPEN m)\<lparr>lastFailureTime := dateNow\<rparr>"

definition incrementFailureCount :: "real \<Rightarrow> ErrorRecoveryManager \<Rightarrow> ErrorRecoveryManager" where
  "incrementFailureCount dateNow m =
     (let m1 = m\<lparr>failureCount := failureCount m + 1\<rparr> in
      if failureCount m1 \<ge> circuitBreakerThreshold (config m1) then
        (setCircuitBreakerState OPEN m1)\<lparr>lastFailureTime := dateNow\<rparr>
      else m1)"

definition resetFailureCount :: "ErrorRecoveryManager \<Rightarrow> ErrorRecoveryManager" where
  "resetFailureCount m = m\<lparr>failureCount := 0\<rparr>"

definition reset :: "ErrorRecoveryManager \<Rightarrow> ErrorRecoveryManager" where
  "reset m = m\<lparr>circuitBreakerState := CLOSED, failureCount := 0, lastFailureTime := 0,
               recoveryAttempts := []\<rparr>"

text \<open>
  The part of \<open>attemptRecovery\<close> from the circuit-breaker check passed up to the end
  of \<open>recoveryFn\<close>: the move to half-open, the delay, the listener call, the sleep and
  the execution of \<open>recoveryFn\<close>. It returns the attempt record (still marked
  unsuccessful), the manager and the world as they are when \<open>recoveryFn\<close> settles.
\<close>

definition runAttempt ::
  "Env \<Rightarrow> ErrorClassification \<Rightarrow> int \<Rightarrow> ErrorRecoveryManager \<times> World
     \<Rightarrow> RecoveryAttempt \<times> ErrorRecoveryManager \<times> World" where
  "runAttempt env classification attemptCount mw =
     (let m = fst mw; w = snd mw;
          m1 = (if circuitBreakerState m = OPEN then setCircuitBreakerState HALF_OPEN m else m);
          d = calculateDelay m1 classification attemptCount (mathRandom env attemptCount);
          recoveryAttempt =
            \<lparr>attempt = attemptCount, attemptStrategy = strategy classification, delay = d,
             timestamp = now w, success = False\<rparr>;
          m2 = m1\<lparr>listenerCalls := listenerCalls m1 @ [OnRecoveryAttempt recoveryAttempt]\<rparr>;
          w1 = (if d > 0 then sleep d w else w);
          w2 = w1\<lparr>now := now w1 + recoveryFnDuration env attemptCount,
                  recoveryFnCalls := recoveryFnCalls w1 + 1\<rparr>
      in (recoveryAttempt, m2, w2))"

definition recoverySucceeded :: "RecoveryAttempt \<Rightarrow> ErrorRecoveryManager \<Rightarrow> ErrorRecoveryManager" where
  "recoverySucceeded recoveryAttempt m =
     (let m1 = resetFailureCount
                 (m\<lparr>recoveryAttempts := recoveryAttempts m @ [recoveryAttempt\<lparr>success := True\<rparr>]\<rparr>)
      in if circuitBreakerState m1 = HALF_OPEN then setCircuitBreakerState CLOSED m1 else m1)"

definition recoveryFailed ::
  "real \<Rightarrow> RecoveryAttempt \<Rightarrow> ErrorRecoveryManager \<Rightarrow> ErrorRecoveryManager" where
  "recoveryFailed dateNow recoveryAttempt m =
     incrementFailureCount dateNow
       (m\<lparr>recoveryAttempts := recoveryAttempts m @ [recoveryAttempt\<lparr>success := False\<rparr>]\<rparr>)"

lemma networkMetrics_setCircuitBreakerState [simp]:
  "networkMetrics (setCircuitBreakerState s m) = networkMetrics m"
  by (simp add: setCircuitBreakerState_def)

lemma networkMetrics_recoveryFailed [simp]:
  "networkMetrics (recoveryFailed t a m) = networkMetrics m"
  by (simp add: recoveryFailed_def incrementFailureCount_def Let_def)

lemma networkMetrics_runAttempt [simp]:
  "networkMetrics (fst (snd (runAttempt env c n mw))) = networkMetrics (fst mw)"
  by (simp add: runAttempt_def Let_def)

lemma classifyError_cong_metrics:
  "networkMetrics m' = networkMetrics m \<Longrightarrow> classifyError m' e = classifyError m e"
  by (simp add: classifyError_def Let_def cong: if_cong)

function attemptRecovery ::
  "Env \<Rightarrow> SSEErrorType \<Rightarrow> int \<Rightarrow> ErrorRecoveryManager \<times> World
     \<Rightarrow> bool \<times> ErrorRecoveryManager \<times> World" where
  "attemptRecovery env err attemptCount mw =
     (if \<not> retryable (classifyError (fst mw) err)
         \<or> attemptCount > maxRetries (classifyError (fst mw) err) then
        (False, handleMaxRetriesExceeded (now (snd mw)) (fst mw), snd mw)
      else if circuitBreakerState (fst mw) = OPEN
              \<and> now (snd mw) - lastFailureTime (fst mw) < circuitBreakerTimeout (config (fst mw)) then
        (False, fst mw, snd mw)
      else
        (case runAttempt env (classifyError (fst mw) err) attemptCount mw of
           (recoveryAttempt, m2, w2) \<Rightarrow>
             if recoveryFn env attemptCount then
               (True, recoverySucceeded recoveryAttempt m2, w2)
             else
               attemptRecovery env err (attemptCount + 1)
                 (recoveryFailed (now w2) recoveryAttempt m2, w2)))"
  by pat_completeness auto
termination
proof (relation "measure (\<lambda>(env, err, attemptCount, mw).
          nat (maxRetries (classifyError (fst mw) err) + 1 - attemptCount))", goal_cases)
  case 1
  show ?case by simp
next
  case (2 env err attemptCount mw recoveryAttempt y m2 w2)
  then have r: "runAttempt env (classifyError (fst mw) err) attemptCount mw
                = (recoveryAttempt, m2, w2)"
    by simp
  have "networkMetrics m2 = networkMetrics (fst mw)"
    using networkMetrics_runAttempt [of env "classifyError (fst mw) err" attemptCount mw]
    unfolding r by simp
  then have "networkMetrics (recoveryFailed (now w2) recoveryAttempt m2) = networkMetrics (fst mw)"
    by simp
  then have "classifyError (recoveryFailed (now w2) recoveryAttempt m2) err
             = classifyError (fst mw) err"
    by (rule classifyError_cong_metrics)
  with 2 show ?case by simp
qed

declare attemptRecovery.simps [simp del]

section \<open>Streaming service (StreamingService)\<close>

subsection \<open>JavaScript strings and values\<close>

text \<open>
  A JavaScript string is the list of its UTF-16 code units; \<open>js\<close> turns an ASCII literal
  into one. A value as \<open>JSON.parse\<close> returns it, or \<open>undefined\<close> for a property that
  is absent. A number is given by the string that \<open>String(n)\<close> yields for it, which is
  all the modelled code needs of a number: whether it is zero, and its text. An object is
  the list of its properties, and a property is read from the first entry with its name.
\<close>

type_synonym jsstring = "nat list"

abbreviation js :: "string \<Rightarrow> jsstring" where
  "js s \<equiv> map of_char s"

datatype jsval =
  JUndefined | JNull | JBool bool | JNumber jsstring | JStr jsstring
  | JArr "jsval list" | JObj "(jsstring \<times> jsval) list"

fun truthy :: "jsval \<Rightarrow> bool" where
  "truthy JUndefined = False"
| "truthy JNull = False"
| "truthy (JBool b) = b"
| "truthy (JNumber n) = (n \<noteq> js ''0'' \<and> n \<noteq> js ''NaN'')"
| "truthy (JStr s) = (s \<noteq> [])"
| "truthy (JArr vs) = True"
| "truthy (JObj ps) = True"

text \<open>\<open>a || b\<close>\<close>

definition jsOr :: "jsval \<Rightarrow> jsval \<Rightarrow> jsval" where
  "jsOr a b = (if truthy a then a else b)"

text \<open>\<open>data.name\<close> for a value \<open>data\<close> that is neither \<open>null\<close> nor \<open>undefined\<close>.\<close>

fun getField :: "jsval \<Rightarrow> jsstring \<Rightarrow> jsval" where
  "getField (JObj ps) name = (case map_of ps name of Some v \<Rightarrow> v | None \<Rightarrow> JUndefined)"
| "getField v name = JUndefined"

fun joinWith :: "jsstring \<Rightarrow> jsstring list \<Rightarrow> jsstring" where
  "joinWith sep [] = []"
| "joinWith sep [x] = x"
| "joinWith sep (x # y # ys) = x @ sep @ joinWith sep (y # ys)"

text \<open>The string a value turns into when it is appended to a string with \<open>+=\<close>.\<close>

fun toString :: "jsval \<Rightarrow> jsstring" where
  "toString JUndefined = js ''undefined''"
| "toString JNull = js ''null''"
| "toString (JBool b) = (if b then js ''true'' else js ''false'')"
| "toString (JNumber n) = n"
| "toString (JStr s) = s"
| "toString (JArr vs) =
     joinWith (js '','')
       (map (\<lambda>v. if v = JNull \<or> v = JUndefined then [] else toString v) vs)"
| "toString (JObj ps) = js ''[object Object]''"

subsection \<open>The text decoder\<close>

text \<open>
  \<open>new TextDecoder()\<close> and \<open>decoder.decode(value, {stream: true})\<close>, after the UTF-8
  decoder of the Encoding standard: the decoder keeps the code point under construction
  across calls, an ill-formed sequence yields U+FFFD, a byte order mark at the very start
  is dropped, and the code points come out as UTF-16 code units. With \<open>stream: true\<close>
  the decoder is never flushed.
\<close>

unbundle bit_operations_syntax

type_synonym byte = "8 word"

record TextDecoder =
  codePoint :: nat
  bytesSeen :: nat
  bytesNeeded :: nat
  lowerBoundary :: byte
  upperBoundary :: byte
  bomSeen :: bool

definition newTextDecoder :: TextDecoder where
  "newTextDecoder =
     \<lparr>codePoint = 0, bytesSeen = 0, bytesNeeded = 0, lowerBoundary = 0x80,
      upperBoundary = 0xBF, bomSeen = False\<rparr>"

text \<open>A byte met while no sequence is open.\<close>

definition utf8Lead :: "TextDecoder \<Rightarrow> byte \<Rightarrow> TextDecoder \<times> nat list" where
  "utf8Lead d b =
     (if b \<le> 0x7F then (d, [unat b])
      else if 0xC2 \<le> b \<and> b \<le> 0xDF then
        (d\<lparr>bytesNeeded := 1, codePoint := unat (b AND 0x1F)\<rparr>, [])
      else if 0xE0 \<le> b \<and> b \<le> 0xEF then
        (d\<lparr>lowerBoundary := (if b = 0xE0 then 0xA0 else lowerBoundary d),
           upperBoundary := (if b = 0xED then 0x9F else upperBoundary d),
           bytesNeeded := 2, codePoint := unat (b AND 0xF)\<rparr>, [])
      else if 0xF0 \<le> b \<and> b \<le> 0xF4 then
        (d\<lparr>lowerBoundary := (if b = 0xF0 then 0x90 else lowerBoundary d),
           upperBoundary := (if b = 0xF4 then 0x8F else upperBoundary d),
           bytesNeeded := 3, codePoint := unat (b AND 0x7)\<rparr>, [])
      else (d, [0xFFFD]))"

text \<open>
  One byte through the decoder: the new state and the code points that come out. A byte
  that cannot continue the open sequence closes it with U+FFFD and is then read again as
  a lead byte.
\<close>

definition utf8Handler :: "TextDecoder \<Rightarrow> byte \<Rightarrow> TextDecoder \<times> nat list" where
  "utf8Handler d b =
     (if bytesNeeded d = 0 then utf8Lead d b
      else if \<not> (lowerBoundary d \<le> b \<and> b \<le> upperBoundary d) then
        (case utf8Lead
                (d\<lparr>codePoint := 0, bytesNeeded := 0, bytesSeen := 0, lowerBoundary := 0x80,
                   upperBoundary := 0xBF\<rparr>) b of
           (d', out) \<Rightarrow> (d', 0xFFFD # out))
      else
        (let d1 = d\<lparr>lowerBoundary := 0x80, upperBoundary := 0xBF,
                     codePoint := push_bit 6 (codePoint d) OR unat (b AND 0x3F),
                     bytesSeen := bytesSeen d + 1\<rparr>
         in if bytesSeen d1 \<noteq> bytesNeeded d1 then (d1, [])
            else (d1\<lparr>codePoint := 0, bytesNeeded := 0, bytesSeen := 0\<rparr>, [codePoint d1])))"

definition utf16 :: "nat \<Rightarrow> jsstring" where
  "utf16 cp =
     (if cp < 0x10000 then [cp]
      else [0xD800 + (cp - 0x10000) div 0x400, 0xDC00 + (cp - 0x10000) mod 0x400])"

text \<open>Code points into the output string; the first one is dropped when it is U+FEFF.\<close>

fun serialize :: "TextDecoder \<Rightarrow> nat list \<Rightarrow> TextDecoder \<times> jsstring" where
  "serialize d [] = (d, [])"
| "serialize d (cp # cps) =
     (if bomSeen d then
        (case serialize d cps of (d', out) \<Rightarrow> (d', utf16 cp @ out))
      else
        (case serialize (d\<lparr>bomSeen := True\<rparr>) cps of
           (d', out) \<Rightarrow> (d', (if cp = 0xFEFF then [] else utf16 cp) @ out)))"

fun decode :: "TextDecoder \<Rightarrow> byte list \<Rightarrow> TextDecoder \<times> jsstring" where
  "decode d [] = (d, [])"
| "decode d (b # bs) =
     (case utf8Handler d b of
        (d1, cps) \<Rightarrow>
          (case serialize d1 cps of
             (d2, out1) \<Rightarrow> (case decode d2 bs of (d3, out2) \<Rightarrow> (d3, out1 @ out2))))"

subsection \<open>Lines\<close>

text \<open>
  \<open>buffer.split('\n')\<close>: the pieces between line feeds, at least one piece (so the
  last case below is never taken).
\<close>

fun split :: "nat \<Rightarrow> jsstring \<Rightarrow> jsstring list" where
  "split sep [] = [[]]"
| "split sep (c # cs) =
     (if c = sep then [] # split sep cs
      else (case split sep cs of piece # pieces \<Rightarrow> (c # piece) # pieces | [] \<Rightarrow> [[c]]))"

text \<open>The code units that \<open>trim()\<close> removes: white space and line terminators.\<close>

definition isWhiteSpace :: "nat \<Rightarrow> bool" where
  "isWhiteSpace c =
     ((0x9 \<le> c \<and> c \<le> 0xD) \<or> c = 0x20 \<or> c = 0xA0 \<or> c = 0x1680
      \<or> (0x2000 \<le> c \<and> c \<le> 0x200A) \<or> c = 0x2028 \<or> c = 0x2029 \<or> c = 0x202F
      \<or> c = 0x205F \<or> c = 0x3000 \<or> c = 0xFEFF)"

definition trim :: "jsstring \<Rightarrow> jsstring" where
  "trim s = rev (dropWhile isWhiteSpace (rev (dropWhile isWhiteSpace s)))"

definition startsWith :: "jsstring \<Rightarrow> jsstring \<Rightarrow> bool" where
  "startsWith s p = (take (length p) s = p)"

subsection \<open>The service object\<close>

text \<open>
  The fields of \<open>StreamingService\<close> that the stream processing reads or writes. Names
  that the error recovery manager already uses carry a prefix (\<open>serviceConfig\<close>,
  \<open>sseMaxRetries\<close>, \<open>errorType\<close>, \<open>errorRetryable\<close>). Every handler is taken to be
  registered and to return normally; \<open>handlerCalls\<close> records the calls made to the
  handlers, oldest first, each with the event object it receives. A pending timer is
  given by its delay: \<open>retryTimeout\<close> and \<open>heartbeatTimeout\<close> are the two fields of the
  class, and \<open>errorEventTimers\<close> lists the timers that \<open>handleErrorEvent\<close> sets without
  keeping them. No timer fires while a stream is processed.
\<close>

datatype SSEConnectionState = DISCONNECTED | CONNECTING | CONNECTED | RECONNECTING | ERROR

record SSEConfig =
  url :: jsstring
  timeout :: real
  sseMaxRetries :: int
  retryDelay :: real
  heartbeatInterval :: real
  enableReconnect :: bool

record SSEConnectionError =
  message :: jsstring
  errorType :: SSEErrorType
  code :: jsval
  errorRetryable :: bool

record SSEConnectionStatus =
  state :: SSEConnectionState
  connected :: bool
  lastEventTime :: jsval
  retryCount :: int
  error :: "SSEConnectionError option"

datatype HandlerCall =
  OnStart jsval | OnToken jsval | OnSources jsval | OnClaims jsval | OnDone jsval
  | OnError jsval | OnCitation jsval | OnClaim jsval
  | OnConnectionStateChange SSEConnectionState

record StreamingService =
  serviceConfig :: SSEConfig
  connectionStatus :: SSEConnectionStatus
  handlerCalls :: "HandlerCall list"
  retryTimeout :: "real option"
  heartbeatTimeout :: "real option"
  errorEventTimers :: "jsval list"
  currentMessage :: jsstring
  currentSources :: "jsval list"
  currentCitations :: "jsval list"
  currentClaims :: "jsval list"
  currentClaimsGroup :: "jsval list"

text \<open>
  What the service takes from outside: \<open>JSON.parse\<close> (\<open>None\<close> when it throws),
  \<open>processSources\<close> of \<open>utils/sourceUtils\<close> (\<open>None\<close> when it throws), and the clock:
  \<open>dateNow k\<close> is what \<open>Date.now()\<close> returns while the line with index \<open>k\<close> of the
  stream is processed and, past the last line, when the stream ends.
\<close>

record Runtime =
  jsonParse :: "jsstring \<Rightarrow> jsval option"
  processSources :: "jsval \<Rightarrow> jsval option"
  dateNow :: "nat \<Rightarrow> jsval"

definition DEFAULT_SSE_CONFIG :: SSEConfig where
  "DEFAULT_SSE_CONFIG =
     \<lparr>url = js ''http://localhost:8000'', timeout = 30000, sseMaxRetries = 5,
      retryDelay = 1000, heartbeatInterval = 30000, enableReconnect = True\<rparr>"

definition createStreamingService :: "SSEConfig \<Rightarrow> StreamingService" where
  "createStreamingService cfg =
     \<lparr>serviceConfig = cfg,
      connectionStatus =
        \<lparr>state = DISCONNECTED, connected = False, lastEventTime = JNull, retryCount = 0,
         error = None\<rparr>,
      handlerCalls = [], retryTimeout = None, heartbeatTimeout = None, errorEventTimers = [],
      currentMessage = [], currentSources = [], currentCitations = [], currentClaims = [],
      currentClaimsGroup = []\<rparr>"

definition callHandler :: "HandlerCall \<Rightarrow> StreamingService \<Rightarrow> StreamingService" where
  "callHandler c s = s\<lparr>handlerCalls := handlerCalls s @ [c]\<rparr>"

definition updateConnectionState :: "SSEConnectionState \<Rightarrow> StreamingService \<Rightarrow> StreamingService" where
  "updateConnectionState st s =
     (if state (connectionStatus s) \<noteq> st then
        callHandler (OnConnectionStateChange st)
          (s\<lparr>connectionStatus :=
               (if st = CONNECTED then
                  (connectionStatus s)\<lparr>state := st, connected := True, retryCount := 0,
                                        error := None\<rparr>
                else (connectionStatus s)\<lparr>state := st, connected := False\<rparr>)\<rparr>)
      else s)"

definition createSSEError :: "SSEErrorType \<Rightarrow> jsstring \<Rightarrow> SSEConnectionError" where
  "createSSEError t msg =
     \<lparr>message = msg, errorType = t, code = JUndefined,
      errorRetryable =
        (t \<in> set [CONNECTION_FAILED, CONNECTION_LOST, NETWORK_ERROR, TIMEOUT_ERROR,
                  SERVER_ERROR])\<rparr>"

definition attemptReconnection :: "StreamingService \<Rightarrow> StreamingService" where
  "attemptReconnection s =
     (let s1 = s\<lparr>connectionStatus :=
                   (connectionStatus s)\<lparr>retryCount := retryCount (connectionStatus s) + 1\<rparr>\<rparr>;
          s2 = updateConnectionState RECONNECTING s1;
          d = min (retryDelay (serviceConfig s2)
                     * power_int 2 (retryCount (connectionStatus s2) - 1)) 30000
      in s2\<lparr>retryTimeout := Some d\<rparr>)"

definition handleConnectionError ::
  "jsval \<Rightarrow> SSEConnectionError \<Rightarrow> StreamingService \<Rightarrow> StreamingService" where
  "handleConnectionError tnow err s =
     (let s1 = s\<lparr>connectionStatus := (connectionStatus s)\<lparr>error := Some err\<rparr>\<rparr>;
          s2 = updateConnectionState ERROR s1;
          s3 = callHandler
                 (OnError (JObj [(js ''type'', JStr (js ''error'')),
                                 (js ''error'', JStr (message err)),
                                 (js ''code'', code err),
                                 (js ''timestamp'', tnow)])) s2
      in if errorRetryable err \<and> enableReconnect (serviceConfig s3)
            \<and> retryCount (connectionStatus s3) < sseMaxRetries (serviceConfig s3)
         then attemptReconnection s3 else s3)"

definition resetHeartbeatTimeout :: "StreamingService \<Rightarrow> StreamingService" where
  "resetHeartbeatTimeout s =
     s\<lparr>heartbeatTimeout := Some (heartbeatInterval (serviceConfig s) * 2)\<rparr>"

subsection \<open>The event handlers\<close>

text \<open>
  Each handler builds the event object from the parsed data, with the properties in the
  order of the source, and \<open>tnow\<close> for \<open>Date.now()\<close>.
\<close>

definition handleStartEvent :: "jsval \<Rightarrow> jsval \<Rightarrow> StreamingService \<Rightarrow> StreamingService" where
  "handleStartEvent tnow data s =
     (let event = JObj [(js ''type'', JStr (js ''start'')),
                        (js ''conversation_id'', jsOr (getField data (js ''conversation_id'')) (JStr [])),
                        (js ''message_id'', jsOr (getField data (js ''message_id'')) (JStr [])),
                        (js ''timestamp'', tnow)]
      in callHandler (OnStart event) s)"

definition handleSourcesEvent ::
  "Runtime \<Rightarrow> jsval \<Rightarrow> jsval \<Rightarrow> StreamingService \<Rightarrow> StreamingService option" where
  "handleSourcesEvent rt tnow data s =
     (case processSources rt (jsOr (getField data (js ''sources'')) (JArr [])) of
        None \<Rightarrow> None
      | Some processed \<Rightarrow>
          (let event = JObj [(js ''type'', JStr (js ''sources'')),
                             (js ''sources'', processed),
                             (js ''timestamp'', tnow)]
           in Some (callHandler (OnSources event)
                      (s\<lparr>currentSources := currentSources s @ [event]\<rparr>))))"

definition handleClaimsEvent :: "jsval \<Rightarrow> jsval \<Rightarrow> StreamingService \<Rightarrow> StreamingService" where
  "handleClaimsEvent tnow data s =
     (let event = JObj [(js ''type'', JStr (js ''claims'')),
                        (js ''claims'', jsOr (getField data (js ''claims'')) (JArr [])),
                        (js ''timestamp'', tnow)]
      in callHandler (OnClaims event)
           (s\<lparr>currentClaimsGroup := currentClaimsGroup s @ [event]\<rparr>))"

definition handleDoneEvent :: "jsval \<Rightarrow> jsval \<Rightarrow> StreamingService \<Rightarrow> StreamingService" where
  "handleDoneEvent tnow data s =
     (let event = JObj [(js ''type'', JStr (js ''done'')),
                        (js ''conversation_id'', getField data (js ''conversation_id'')),
                        (js ''message_id'', getField data (js ''message_id'')),
                        (js ''total_tokens'', getField data (js ''total_tokens'')),
                        (js ''processing_time_ms'', getField data (js ''processing_time_ms'')),
                        (js ''timestamp'', tnow)]
      in updateConnectionState DISCONNECTED (callHandler (OnDone event) s))"

definition handleTokenEvent :: "jsval \<Rightarrow> jsval \<Rightarrow> StreamingService \<Rightarrow> StreamingService" where
  "handleTokenEvent tnow data s =
     (let event = JObj [(js ''type'', JStr (js ''token'')),
                        (js ''content'', jsOr (getField data (js ''content'')) (JStr [])),
                        (js ''conversation_id'', getField data (js ''conversation_id'')),
                        (js ''message_id'', getField data (js ''message_id'')),
                        (js ''timestamp'', tnow)]
      in callHandler (OnToken event)
           (s\<lparr>currentMessage := currentMessage s @ toString (getField event (js ''content''))\<rparr>))"

definition handleCitationEvent :: "jsval \<Rightarrow> jsval \<Rightarrow> StreamingService \<Rightarrow> StreamingService" where
  "handleCitationEvent tnow data s =
     (let event =
            JObj [(js ''type'', JStr (js ''citation'')),
                  (js ''citation'',
                   JObj [(js ''id'', jsOr (getField data (js ''id''))
                                       (JStr (js ''citation-'' @ toString tnow))),
                         (js ''title'', jsOr (getField data (js ''title'')) (JStr [])),
                         (js ''url'', jsOr (getField data (js ''url'')) (JStr [])),
                         (js ''snippet'', jsOr (getField data (js ''snippet'')) (JStr [])),
                         (js ''relevance_score'',
                          jsOr (getField data (js ''relevance_score'')) (JNumber (js ''0''))),
                         (js ''position'', getField data (js ''position''))]),
                  (js ''timestamp'', tnow)]
      in callHandler (OnCitation event)
           (s\<lparr>currentCitations := currentCitations s @ [event]\<rparr>))"

definition handleClaimEvent :: "jsval \<Rightarrow> jsval \<Rightarrow> StreamingService \<Rightarrow> StreamingService" where
  "handleClaimEvent tnow data s =
     (let event =
            JObj [(js ''type'', JStr (js ''claim'')),
                  (js ''claim'',
                   JObj [(js ''id'', jsOr (getField data (js ''id''))
                                       (JStr (js ''claim-'' @ toString tnow))),
                         (js ''text'', jsOr (getField data (js ''text'')) (JStr [])),
                         (js ''confidence'',
                          jsOr (getField data (js ''confidence'')) (JNumber (js ''0''))),
                         (js ''evidence_count'',
                          jsOr (getField data (js ''evidence_count'')) (JNumber (js ''0''))),
                         (js ''has_conflict'',
                          jsOr (getField data (js ''has_conflict'')) (JBool False)),
                         (js ''uncertainty'',
                          jsOr (getField data (js ''uncertainty'')) (JBool False))]),
                  (js ''timestamp'', tnow)]
      in callHandler (OnClaim event)
           (s\<lparr>currentClaims := currentClaims s @ [event]\<rparr>))"

definition handleErrorEvent :: "jsval \<Rightarrow> jsval \<Rightarrow> StreamingService \<Rightarrow> StreamingService" where
  "handleErrorEvent tnow data s =
     (let event = JObj [(js ''type'', JStr (js ''error'')),
                        (js ''error'', jsOr (getField data (js ''error'')) (JStr (js ''Unknown error''))),
                        (js ''code'', getField data (js ''code'')),
                        (js ''details'', getField data (js ''details'')),
                        (js ''retry_after'', getField data (js ''retry_after'')),
                        (js ''timestamp'', tnow)];
          s1 = callHandler (OnError event) s
      in if truthy (getField event (js ''retry_after'')) \<and> enableReconnect (serviceConfig s1)
         then s1\<lparr>errorEventTimers := errorEventTimers s1 @ [getField event (js ''retry_after'')]\<rparr>
         else s1)"

definition handleHeartbeatEvent :: "jsval \<Rightarrow> StreamingService \<Rightarrow> StreamingService" where
  "handleHeartbeatEvent data s = resetHeartbeatTimeout s"

text \<open>
  \<open>handleSSEEvent\<close> returns, beside the state, whether it returned normally. It throws
  when it reads \<open>type\<close> from \<open>null\<close>, before any change, and when \<open>processSources\<close>
  throws, with the time of the last event already set.
\<close>

definition handleSSEEvent ::
  "Runtime \<Rightarrow> jsval \<Rightarrow> jsval \<Rightarrow> StreamingService \<Rightarrow> bool \<times> StreamingService" where
  "handleSSEEvent rt tnow eventData s =
     (if eventData = JNull \<or> eventData = JUndefined then (False, s)
      else if \<not> truthy (getField eventData (js ''type'')) then (True, s)
      else
        (let s1 = s\<lparr>connectionStatus := (connectionStatus s)\<lparr>lastEventTime := tnow\<rparr>\<rparr>;
             t = getField eventData (js ''type'')
         in if t = JStr (js ''start'') then (True, handleStartEvent tnow eventData s1)
            else if t = JStr (js ''token'') then (True, handleTokenEvent tnow eventData s1)
            else if t = JStr (js ''sources'') then
              (case handleSourcesEvent rt tnow eventData s1 of
                 None \<Rightarrow> (False, s1) | Some s2 \<Rightarrow> (True, s2))
            else if t = JStr (js ''claims'') then (True, handleClaimsEvent tnow eventData s1)
            else if t = JStr (js ''citation'') then (True, handleCitationEvent tnow eventData s1)
            else if t = JStr (js ''claim'') then (True, handleClaimEvent tnow eventData s1)
            else if t = JStr (js ''done'') then (True, handleDoneEvent tnow eventData s1)
            else if t = JStr (js ''error'') then (True, handleErrorEvent tnow eventData s1)
            else if t = JStr (js ''heartbeat'') then (True, handleHeartbeatEvent eventData s1)
            else (True, s1)))"

subsection \<open>Lines and chunks\<close>

text \<open>The \<open>catch\<close> block of \<open>processSSELine\<close>.\<close>

definition parseErrorCaught :: "StreamingService \<Rightarrow> StreamingService" where
  "parseErrorCaught s =
     callHandler
       (OnError (JObj [(js ''type'', JStr (js ''error'')),
                       (js ''error'', JStr (js ''Failed to parse streaming data'')),
                       (js ''code'', JStr (js ''PARSE_ERROR''))])) s"

definition processSSELine ::
  "Runtime \<Rightarrow> jsval \<Rightarrow> jsstring \<Rightarrow> StreamingService \<Rightarrow> StreamingService" where
  "processSSELine rt tnow line s =
     (let trimmedLine = trim line in
      if trimmedLine = [] \<or> startsWith trimmedLine (js '':'') then s
      else if startsWith trimmedLine (js ''data: '') then
        (let payload = drop 6 trimmedLine in
         if payload = js ''[DONE]'' then updateConnectionState DISCONNECTED s
         else
           (case jsonParse rt payload of
              None \<Rightarrow> parseErrorCaught s
            | Some parsed \<Rightarrow>
                (case handleSSEEvent rt tnow parsed s of
                   (True, s') \<Rightarrow> s'
                 | (False, s') \<Rightarrow> parseErrorCaught s')))
      else s)"

text \<open>
  \<open>for (const line of lines)\<close>: the lines in order, the first of them being line
  number \<open>k\<close> of the stream.
\<close>

fun processLines ::
  "Runtime \<Rightarrow> nat \<Rightarrow> jsstring list \<Rightarrow> StreamingService \<Rightarrow> StreamingService" where
  "processLines rt k [] s = s"
| "processLines rt k (line # lines) s =
     processLines rt (Suc k) lines (processSSELine rt (dateNow rt k) line s)"

text \<open>
  The local state of \<open>processStream\<close>: the service, the decoder, the buffer, and the
  number of lines processed so far (which only selects the clock reading).
\<close>

record ReadLoop =
  service :: StreamingService
  decoder :: TextDecoder
  buffer :: jsstring
  linesProcessed :: nat

text \<open>One turn of the \<open>while\<close> loop for a chunk that was read.\<close>

definition readChunk :: "Runtime \<Rightarrow> byte list \<Rightarrow> ReadLoop \<Rightarrow> ReadLoop" where
  "readChunk rt chunkBytes l =
     (case decode (decoder l) chunkBytes of
        (d, chunk) \<Rightarrow>
          (let buffer1 = buffer l @ chunk;
               lines = split 0xA buffer1;
               popped = last lines;
               lines' = butlast lines
           in \<lparr>service = processLines rt (linesProcessed l) lines' (service l),
               decoder = d,
               buffer = (if popped \<noteq> [] then popped else []),
               linesProcessed = linesProcessed l + length lines'\<rparr>))"

text \<open>
  How the reads end: \<open>done\<close>, or \<open>reader.read()\<close> rejects, with the message of the
  error when the rejection is an \<open>Error\<close>. Releasing the reader's lock changes nothing
  in the service and is left out.
\<close>

datatype StreamEnd = EndOfInput | ReadRejected "jsstring option"

fun readLoop :: "Runtime \<Rightarrow> byte list list \<Rightarrow> StreamEnd \<Rightarrow> ReadLoop \<Rightarrow> StreamingService" where
  "readLoop rt [] EndOfInput l = updateConnectionState DISCONNECTED (service l)"
| "readLoop rt [] (ReadRejected msg) l =
     handleConnectionError (dateNow rt (linesProcessed l))
       (createSSEError NETWORK_ERROR
          (case msg of Some m \<Rightarrow> m | None \<Rightarrow> js ''Stream processing failed''))
       (service l)"
| "readLoop rt (chunkBytes # rest) e l = readLoop rt rest e (readChunk rt chunkBytes l)"

definition processStream ::
  "Runtime \<Rightarrow> byte list list \<times> StreamEnd \<Rightarrow> StreamingService \<Rightarrow> StreamingService" where
  "processStream rt body s =
     readLoop rt (fst body) (snd body)
       \<lparr>service = updateConnectionState CONNECTED s, decoder = newTextDecoder, buffer = [],
        linesProcessed = 0\<rparr>"

text \<open>\<open>getCurrentMessage\<close>\<close>

definition getCurrentMessage :: "StreamingService \<Rightarrow> jsstring" where
  "getCurrentMessage s = currentMessage s"



section \<open>Concrete inputs\<close>

text \<open>
  A manager as the constructor leaves it with the default configuration, a world at
  time 0, and an environment in which the first execution of \<open>recoveryFn\<close> rejects and
  every later one resolves, \<open>recoveryFn\<close> takes no time and \<open>Math.random()\<close> returns
  one half.
\<close>

definition defaultManager :: ErrorRecoveryManager where
  "defaultManager = createErrorRecoveryManager DEFAULT_RECOVERY_CONFIG"

definition worldAt :: "real \<Rightarrow> World" where
  "worldAt t = \<lparr>now = t, recoveryFnCalls = 0\<rparr>"

definition failsOnceEnv :: Env where
  "failsOnceEnv =
     \<lparr>recoveryFn = (\<lambda>n. n \<noteq> 1), recoveryFnDuration = (\<lambda>n. 0), mathRandom = (\<lambda>n. 1 / 2)\<rparr>"

definition alwaysFailsEnv :: Env where
  "alwaysFailsEnv =
     \<lparr>recoveryFn = (\<lambda>n. False), recoveryFnDuration = (\<lambda>n. 0), mathRandom = (\<lambda>n. 1 / 2)\<rparr>"

text \<open>
  Two managers with the breaker open. The first was opened by the failure count: five
  failed attempts for a \<open>connection_failed\<close> error, started at time 0. The second was
  opened by one call for a \<open>parse_error\<close> at time 0, with no failure counted.
\<close>

definition openedByThreshold :: ErrorRecoveryManager where
  "openedByThreshold =
     fst (snd (attemptRecovery alwaysFailsEnv CONNECTION_FAILED 1 (defaultManager, worldAt 0)))"

definition openedByParseError :: ErrorRecoveryManager where
  "openedByParseError =
     fst (snd (attemptRecovery failsOnceEnv PARSE_ERROR 1 (defaultManager, worldAt 0)))"

text \<open>
  One minute after the breaker was opened by the \<open>parse_error\<close>, a call for a
  \<open>connection_failed\<close> error runs its first attempt (\<open>probeAfterParseError\<close>), which
  fails; \<open>failedProbe\<close> is the manager after that failure has been recorded.
\<close>

definition probeAfterParseError :: "RecoveryAttempt \<times> ErrorRecoveryManager \<times> World" where
  "probeAfterParseError =
     runAttempt failsOnceEnv (classifyError openedByParseError CONNECTION_FAILED) 1
       (openedByParseError, worldAt 60000)"

definition failedProbe :: ErrorRecoveryManager where
  "failedProbe =
     recoveryFailed (now (snd (snd probeAfterParseError))) (fst probeAfterParseError)
       (fst (snd probeAfterParseError))"

text \<open>
  Streams. A payload as it stands after \<open>data: \<close>, and the value \<open>JSON.parse\<close>
  returns for it.
\<close>

definition tokenPayload :: "jsstring \<Rightarrow> jsstring" where
  "tokenPayload c = js ''{\"type\":\"token\",\"content\":\"'' @ c @ js ''\"}''"

definition tokenData :: "jsstring \<Rightarrow> jsval" where
  "tokenData c = JObj [(js ''type'', JStr (js ''token'')), (js ''content'', JStr c)]"

definition startPayload :: jsstring where
  "startPayload = js ''{\"type\":\"start\",\"conversation_id\":\"c1\",\"message_id\":\"m1\"}''"

definition startData :: jsval where
  "startData =
     JObj [(js ''type'', JStr (js ''start'')), (js ''conversation_id'', JStr (js ''c1'')),
           (js ''message_id'', JStr (js ''m1''))]"

definition donePayload :: jsstring where
  "donePayload = js ''{\"type\":\"done\"}''"

definition doneData :: jsval where
  "doneData = JObj [(js ''type'', JStr (js ''done''))]"

definition malformedPayload :: jsstring where
  "malformedPayload = js ''{\"type\":\"token\",\"content\":''"

text \<open>
  \<open>JSON.parse\<close> on the payloads of the examples: each text listed parses to the value
  beside it, and a text that is not listed, the malformed payload among them, makes it
  throw. The content \<open>[0xE9]\<close> is the one character U+00E9.
\<close>

definition exampleParse :: "jsstring \<Rightarrow> jsval option" where
  "exampleParse =
     map_of
       [(startPayload, startData),
        (tokenPayload (js ''Hel''), tokenData (js ''Hel'')),
        (tokenPayload (js ''lo ''), tokenData (js ''lo '')),
        (tokenPayload (js ''world''), tokenData (js ''world'')),
        (tokenPayload [0xE9], tokenData [0xE9]),
        (donePayload, doneData)]"

definition exampleTime :: jsval where
  "exampleTime = JNumber (js ''1700000000000'')"

definition exampleRuntime :: Runtime where
  "exampleRuntime =
     \<lparr>jsonParse = exampleParse, processSources = Some,
      dateNow = (\<lambda>k. exampleTime)\<rparr>"

text \<open>
  The text of an event on the wire: the data line, a line feed, and the empty line that
  ends the event. \<open>asciiBytes\<close> gives the bytes of a text of ASCII characters.
\<close>

definition sseLine :: "jsstring \<Rightarrow> jsstring" where
  "sseLine payload = js ''data: '' @ payload @ [0xA, 0xA]"

definition asciiBytes :: "jsstring \<Rightarrow> byte list" where
  "asciiBytes s = map of_nat s"

definition newService :: StreamingService where
  "newService = createStreamingService DEFAULT_SSE_CONFIG"

text \<open>\<open>start\<close>, the tokens \<open>Hel\<close>, \<open>lo \<close> and \<open>world\<close>, then \<open>done\<close>.\<close>

definition helloText :: jsstring where
  "helloText =
     sseLine startPayload @ sseLine (tokenPayload (js ''Hel'')) @ sseLine (tokenPayload (js ''lo ''))
     @ sseLine (tokenPayload (js ''world'')) @ sseLine donePayload"

definition helloStream :: "byte list" where
  "helloStream = asciiBytes helloText"

text \<open>
  One token whose content is U+00E9, in UTF-8 the two bytes C3 A9, cut into three
  chunks: inside \<open>data: \<close>, and between the two bytes of the character.
\<close>

definition accentChunks :: "byte list list" where
  "accentChunks =
     [asciiBytes (js ''dat''),
      asciiBytes (js ''a: {\"type\":\"token\",\"content\":\"'') @ [0xC3],
      [0xA9] @ asciiBytes (js ''\"}'' @ [0xA, 0xA])]"

text \<open>A token and then the end of the input, with no \<open>done\<close> event and no \<open>[DONE]\<close> line.\<close>

definition tokenOnlyText :: jsstring where
  "tokenOnlyText = sseLine (tokenPayload (js ''Hel''))"

definition tokenOnlyStream :: "byte list" where
  "tokenOnlyStream = asciiBytes tokenOnlyText"

text \<open>A \<open>[DONE]\<close> line followed by a token.\<close>

definition doneThenTokenText :: jsstring where
  "doneThenTokenText = sseLine (js ''[DONE]'') @ sseLine (tokenPayload (js ''world''))"

definition doneThenTokenStream :: "byte list" where
  "doneThenTokenStream = asciiBytes doneThenTokenText"

text \<open>A token, a line with malformed JSON, and another token.\<close>

definition malformedText :: jsstring where
  "malformedText =
     sseLine (tokenPayload (js ''Hel'')) @ sseLine malformedPayload
     @ sseLine (tokenPayload (js ''lo ''))"

definition malformedStream :: "byte list" where
  "malformedStream = asciiBytes malformedText"

text \<open>
  The event objects that the handlers receive for the payloads above, with the clock
  reading of the examples.
\<close>

definition tokenEvent :: "jsstring \<Rightarrow> jsval" where
  "tokenEvent c =
     JObj [(js ''type'', JStr (js ''token'')), (js ''content'', JStr c),
           (js ''conversation_id'', JUndefined), (js ''message_id'', JUndefined),
           (js ''timestamp'', exampleTime)]"

definition startEvent :: jsval where
  "startEvent =
     JObj [(js ''type'', JStr (js ''start'')), (js ''conversation_id'', JStr (js ''c1'')),
           (js ''message_id'', JStr (js ''m1'')), (js ''timestamp'', exampleTime)]"

definition doneEvent :: jsval where
  "doneEvent =
     JObj [(js ''type'', JStr (js ''done'')), (js ''conversation_id'', JUndefined),
           (js ''message_id'', JUndefined), (js ''total_tokens'', JUndefined),
           (js ''processing_time_ms'', JUndefined), (js ''timestamp'', exampleTime)]"

definition parseErrorEvent :: jsval where
  "parseErrorEvent =
     JObj [(js ''type'', JStr (js ''error'')),
           (js ''error'', JStr (js ''Failed to parse streaming data'')),
           (js ''code'', JStr (js ''PARSE_ERROR''))]"

section \<open>Properties of the error recovery manager\<close>

subsection \<open>Auxiliary facts\<close>

lemma calculateDelay_le_maxDelay:
  "calculateDelay m c n r \<le> maxDelay (config m)"
  by (simp add: calculateDelay_def Let_def)

lemma not_retryable_auth_parse:
  "e = AUTH_ERROR \<or> e = PARSE_ERROR \<Longrightarrow> \<not> retryable (classifyError m e)"
  by (auto simp: classifyError_def Let_def)

lemma attemptRecovery_refused:
  "\<not> retryable (classifyError m e) \<or> maxRetries (classifyError m e) < n \<Longrightarrow>
   attemptRecovery env e n (m, w) = (False, handleMaxRetriesExceeded (now w) m, w)"
  by (subst attemptRecovery.simps) auto

lemma handleMaxRetriesExceeded_fields:
  "circuitBreakerState (handleMaxRetriesExceeded t m) = OPEN"
  "lastFailureTime (handleMaxRetriesExceeded t m) = t"
  "failureCount (handleMaxRetriesExceeded t m) = failureCount m"
  "recoveryAttempts (handleMaxRetriesExceeded t m) = recoveryAttempts m"
  by (simp_all add: handleMaxRetriesExceeded_def setCircuitBreakerState_def)

lemma attemptRecovery_suppressed:
  "circuitBreakerState m = OPEN \<Longrightarrow>
   now w - lastFailureTime m < circuitBreakerTimeout (config m) \<Longrightarrow>
   retryable (classifyError m e) \<Longrightarrow> n \<le> maxRetries (classifyError m e) \<Longrightarrow>
   attemptRecovery env e n (m, w) = (False, m, w)"
  by (subst attemptRecovery.simps) auto

lemma attemptRecovery_attempt:
  "retryable (classifyError m e) \<Longrightarrow> n \<le> maxRetries (classifyError m e) \<Longrightarrow>
   circuitBreakerState m \<noteq> OPEN
     \<or> circuitBreakerTimeout (config m) \<le> now w - lastFailureTime m \<Longrightarrow>
   attemptRecovery env e n (m, w) =
     (if recoveryFn env n then
        (True,
         recoverySucceeded (fst (runAttempt env (classifyError m e) n (m, w)))
           (fst (snd (runAttempt env (classifyError m e) n (m, w)))),
         snd (snd (runAttempt env (classifyError m e) n (m, w))))
      else attemptRecovery env e (n + 1)
             (recoveryFailed (now (snd (snd (runAttempt env (classifyError m e) n (m, w)))))
                (fst (runAttempt env (classifyError m e) n (m, w)))
                (fst (snd (runAttempt env (classifyError m e) n (m, w)))),
              snd (snd (runAttempt env (classifyError m e) n (m, w)))))"
  by (subst attemptRecovery.simps) (auto split: prod.splits)

lemma runAttempt_state:
  "circuitBreakerState (fst (snd (runAttempt env c n (m, w)))) =
     (if circuitBreakerState m = OPEN then HALF_OPEN else circuitBreakerState m)"
  "failureCount (fst (snd (runAttempt env c n (m, w)))) = failureCount m"
  "lastFailureTime (fst (snd (runAttempt env c n (m, w)))) = lastFailureTime m"
  "config (fst (snd (runAttempt env c n (m, w)))) = config m"
  "recoveryAttempts (fst (snd (runAttempt env c n (m, w)))) = recoveryAttempts m"
  "recoveryFnCalls (snd (snd (runAttempt env c n (m, w)))) = recoveryFnCalls w + 1"
  by (simp_all add: runAttempt_def Let_def setCircuitBreakerState_def sleep_def)

lemma runAttempt_half_open:
  "circuitBreakerState m = OPEN \<Longrightarrow>
   runAttempt env c n (setCircuitBreakerState HALF_OPEN m, w) = runAttempt env c n (m, w)"
  by (simp add: runAttempt_def Let_def setCircuitBreakerState_def)

lemma recoverySucceeded_state:
  "circuitBreakerState (recoverySucceeded a m) =
     (if circuitBreakerState m = HALF_OPEN then CLOSED else circuitBreakerState m)"
  "failureCount (recoverySucceeded a m) = 0"
  by (simp_all add: recoverySucceeded_def Let_def resetFailureCount_def
        setCircuitBreakerState_def)

lemma recoveryFailed_state:
  "circuitBreakerState (recoveryFailed t a m) =
     (if circuitBreakerThreshold (config m) \<le> failureCount m + 1 then OPEN
      else circuitBreakerState m)"
  "lastFailureTime (recoveryFailed t a m) =
     (if circuitBreakerThreshold (config m) \<le> failureCount m + 1 then t
      else lastFailureTime m)"
  "failureCount (recoveryFailed t a m) = failureCount m + 1"
  "config (recoveryFailed t a m) = config m"
  by (simp_all add: recoveryFailed_def incrementFailureCount_def Let_def
        setCircuitBreakerState_def)

text \<open>
  What a whole call leaves behind, by induction along the recursion of
  \<open>attemptRecovery\<close>: the breaker is open after a call that returns false and closed
  after one that returns true, and a call that ends with the breaker open either changed
  nothing or left the time of the last failure at the clock's reading.
\<close>

lemma attemptRecovery_outcome:
  "(fst (attemptRecovery env e n mw) \<longrightarrow>
      circuitBreakerState (fst (snd (attemptRecovery env e n mw))) = CLOSED
      \<and> failureCount (fst (snd (attemptRecovery env e n mw))) = 0)
   \<and> (\<not> fst (attemptRecovery env e n mw) \<longrightarrow>
      circuitBreakerState (fst (snd (attemptRecovery env e n mw))) = OPEN
      \<and> (attemptRecovery env e n mw = (False, mw)
          \<or> lastFailureTime (fst (snd (attemptRecovery env e n mw)))
              = now (snd (snd (attemptRecovery env e n mw)))))"
proof (induction env e n mw rule: attemptRecovery.induct)
  case (1 env err attemptCount mw)
  obtain m w where mw: "mw = (m, w)"
    by (cases mw)
  show ?case
  proof (cases "\<not> retryable (classifyError m err)
                 \<or> attemptCount > maxRetries (classifyError m err)")
    case True
    then show ?thesis
      unfolding mw using attemptRecovery_refused [of m err attemptCount env w]
      by (simp add: handleMaxRetriesExceeded_fields)
  next
    case False
    note budget = this
    show ?thesis
    proof (cases "circuitBreakerState m = OPEN
              \<and> now w - lastFailureTime m < circuitBreakerTimeout (config m)")
      case True
      then show ?thesis
        unfolding mw using attemptRecovery_suppressed [of m w err attemptCount env] budget
        by simp
    next
      case False
      note passed = this
      obtain a m2 w2 where r: "runAttempt env (classifyError m err) attemptCount (m, w) = (a, m2, w2)"
        by (cases "runAttempt env (classifyError m err) attemptCount (m, w)")
      have m2: "circuitBreakerState m2 \<noteq> OPEN"
        using runAttempt_state(1) [of env "classifyError m err" attemptCount m w]
        unfolding r by (simp split: if_splits)
      have unfold: "attemptRecovery env err attemptCount (m, w) =
          (if recoveryFn env attemptCount then (True, recoverySucceeded a m2, w2)
           else attemptRecovery env err (attemptCount + 1) (recoveryFailed (now w2) a m2, w2))"
        using attemptRecovery_attempt [of m err attemptCount w env] budget passed
        unfolding r by auto
      show ?thesis
      proof (cases "recoveryFn env attemptCount")
        case True
        then show ?thesis
          unfolding mw unfold using m2
          by (cases "circuitBreakerState m2") (simp_all add: recoverySucceeded_state)
      next
        case nf: False
        have IH: "(fst (attemptRecovery env err (attemptCount + 1) (recoveryFailed (now w2) a m2, w2)) \<longrightarrow>
            circuitBreakerState (fst (snd (attemptRecovery env err (attemptCount + 1) (recoveryFailed (now w2) a m2, w2)))) = CLOSED
            \<and> failureCount (fst (snd (attemptRecovery env err (attemptCount + 1) (recoveryFailed (now w2) a m2, w2)))) = 0)
          \<and> (\<not> fst (attemptRecovery env err (attemptCount + 1) (recoveryFailed (now w2) a m2, w2)) \<longrightarrow>
            circuitBreakerState (fst (snd (attemptRecovery env err (attemptCount + 1) (recoveryFailed (now w2) a m2, w2)))) = OPEN
            \<and> (attemptRecovery env err (attemptCount + 1) (recoveryFailed (now w2) a m2, w2)
                  = (False, recoveryFailed (now w2) a m2, w2)
                \<or> lastFailureTime (fst (snd (attemptRecovery env err (attemptCount + 1) (recoveryFailed (now w2) a m2, w2))))
                    = now (snd (snd (attemptRecovery env err (attemptCount + 1) (recoveryFailed (now w2) a m2, w2))))))"
          using "1.IH" [of a "(m2, w2)" m2 w2] budget passed nf r
          unfolding mw by auto
        have same: "attemptRecovery env err (attemptCount + 1) (recoveryFailed (now w2) a m2, w2)
                     = (False, recoveryFailed (now w2) a m2, w2) \<Longrightarrow>
                    circuitBreakerState (recoveryFailed (now w2) a m2) = OPEN \<Longrightarrow>
                    lastFailureTime (recoveryFailed (now w2) a m2) = now w2"
          using m2 by (simp add: recoveryFailed_state split: if_splits)
        show ?thesis
          unfolding mw unfold using nf IH same
          by (cases "attemptRecovery env err (attemptCount + 1) (recoveryFailed (now w2) a m2, w2)")
             auto
      qed
    qed
  qed
qed

subsection \<open>The circuit breaker\<close>

text \<open>
  Claim C3, as the code has it. The circuit breaker starts \<open>closed\<close>. A failed attempt
  moves it to \<open>open\<close> exactly when it brings the failure count to the configured
  threshold or above, and otherwise leaves the state as it was. While the breaker is
  \<open>open\<close> and less than \<open>circuitBreakerTimeout\<close> has passed since the last failure,
  every call returns false, leaves it \<open>open\<close>, records no recovery attempt, does not
  change the failure count and does not execute \<open>recoveryFn\<close>. Once the timeout has
  passed, a call for a retryable error within its retry budget moves the breaker to
  \<open>half_open\<close> and runs its attempt there. An attempt that succeeds in \<open>half_open\<close>
  closes it. An attempt that fails in \<open>half_open\<close> with the failure count then at the
  threshold or above reopens it and sets the time of the last failure to the time of
  that failure. Every call that returns false leaves the breaker \<open>open\<close>, every call
  that returns true leaves it \<open>closed\<close>, and a call that ends with the breaker \<open>open\<close>
  either changed nothing or left the time of the last failure at the time the call ended.
\<close>

theorem circuit_breaker_transitions:
  "circuitBreakerState (createErrorRecoveryManager cfg) = CLOSED
   \<and> circuitBreakerState (recoveryFailed t a m) =
        (if circuitBreakerThreshold (config m) \<le> failureCount m + 1 then OPEN
         else circuitBreakerState m)
   \<and> (circuitBreakerState m = OPEN
        \<and> now w - lastFailureTime m < circuitBreakerTimeout (config m) \<longrightarrow>
        \<not> fst (attemptRecovery env e n (m, w))
        \<and> circuitBreakerState (fst (snd (attemptRecovery env e n (m, w)))) = OPEN
        \<and> recoveryAttempts (fst (snd (attemptRecovery env e n (m, w)))) = recoveryAttempts m
        \<and> failureCount (fst (snd (attemptRecovery env e n (m, w)))) = failureCount m
        \<and> snd (snd (attemptRecovery env e n (m, w))) = w)
   \<and> (circuitBreakerState m = OPEN
        \<and> circuitBreakerTimeout (config m) \<le> now w - lastFailureTime m
        \<and> retryable (classifyError m e) \<and> n \<le> maxRetries (classifyError m e) \<longrightarrow>
        circuitBreakerState (fst (snd (runAttempt env (classifyError m e) n (m, w)))) = HALF_OPEN
        \<and> attemptRecovery env e n (m, w)
            = attemptRecovery env e n (setCircuitBreakerState HALF_OPEN m, w))
   \<and> (circuitBreakerState m = HALF_OPEN
        \<and> retryable (classifyError m e) \<and> n \<le> maxRetries (classifyError m e)
        \<and> recoveryFn env n \<longrightarrow>
        fst (attemptRecovery env e n (m, w))
        \<and> circuitBreakerState (fst (snd (attemptRecovery env e n (m, w)))) = CLOSED)
   \<and> (circuitBreakerState m = HALF_OPEN
        \<and> retryable (classifyError m e) \<and> n \<le> maxRetries (classifyError m e)
        \<and> \<not> recoveryFn env n
        \<and> circuitBreakerThreshold (config m) \<le> failureCount m + 1 \<longrightarrow>
        (let p = runAttempt env (classifyError m e) n (m, w);
             m' = recoveryFailed (now (snd (snd p))) (fst p) (fst (snd p))
         in circuitBreakerState m' = OPEN \<and> lastFailureTime m' = now (snd (snd p))
            \<and> attemptRecovery env e n (m, w) = attemptRecovery env e (n + 1) (m', snd (snd p))))
   \<and> (\<not> fst (attemptRecovery env e n (m, w)) \<longrightarrow>
        circuitBreakerState (fst (snd (attemptRecovery env e n (m, w)))) = OPEN)
   \<and> (fst (attemptRecovery env e n (m, w)) \<longrightarrow>
        circuitBreakerState (fst (snd (attemptRecovery env e n (m, w)))) = CLOSED)
   \<and> (circuitBreakerState (fst (snd (attemptRecovery env e n (m, w)))) = OPEN \<longrightarrow>
        attemptRecovery env e n (m, w) = (False, m, w)
        \<or> lastFailureTime (fst (snd (attemptRecovery env e n (m, w))))
            = now (snd (snd (attemptRecovery env e n (m, w)))))"
proof -
  have start: "circuitBreakerState (createErrorRecoveryManager cfg) = CLOSED"
    by (simp add: createErrorRecoveryManager_def)
  have failed: "circuitBreakerState (recoveryFailed t a m) =
        (if circuitBreakerThreshold (config m) \<le> failureCount m + 1 then OPEN
         else circuitBreakerState m)"
    by (rule recoveryFailed_state)
  have suppressed: "\<not> fst (attemptRecovery env e n (m, w))
        \<and> circuitBreakerState (fst (snd (attemptRecovery env e n (m, w)))) = OPEN
        \<and> recoveryAttempts (fst (snd (attemptRecovery env e n (m, w)))) = recoveryAttempts m
        \<and> failureCount (fst (snd (attemptRecovery env e n (m, w)))) = failureCount m
        \<and> snd (snd (attemptRecovery env e n (m, w))) = w"
    if "circuitBreakerState m = OPEN"
      and "now w - lastFailureTime m < circuitBreakerTimeout (config m)"
  proof (cases "retryable (classifyError m e) \<and> n \<le> maxRetries (classifyError m e)")
    case True
    with that show ?thesis
      by (simp add: attemptRecovery_suppressed)
  next
    case False
    then have "attemptRecovery env e n (m, w) = (False, handleMaxRetriesExceeded (now w) m, w)"
      by (intro attemptRecovery_refused) auto
    then show ?thesis
      by (simp add: handleMaxRetriesExceeded_fields)
  qed
  have probe: "circuitBreakerState (fst (snd (runAttempt env (classifyError m e) n (m, w)))) = HALF_OPEN
        \<and> attemptRecovery env e n (m, w)
            = attemptRecovery env e n (setCircuitBreakerState HALF_OPEN m, w)"
    if "circuitBreakerState m = OPEN"
      and "circuitBreakerTimeout (config m) \<le> now w - lastFailureTime m"
      and "retryable (classifyError m e)" and "n \<le> maxRetries (classifyError m e)"
  proof -
    let ?h = "setCircuitBreakerState HALF_OPEN m"
    have c: "classifyError ?h e = classifyError m e"
      by (rule classifyError_cong_metrics) simp
    have "circuitBreakerState ?h \<noteq> OPEN"
      by (simp add: setCircuitBreakerState_def)
    then have "attemptRecovery env e n (?h, w) = attemptRecovery env e n (m, w)"
      using that
      by (simp add: attemptRecovery_attempt [of ?h] attemptRecovery_attempt [of m] c
            runAttempt_half_open)
    with that show ?thesis
      by (simp add: runAttempt_state)
  qed
  have closes: "fst (attemptRecovery env e n (m, w))
        \<and> circuitBreakerState (fst (snd (attemptRecovery env e n (m, w)))) = CLOSED"
    if "circuitBreakerState m = HALF_OPEN"
      and "retryable (classifyError m e)" and "n \<le> maxRetries (classifyError m e)"
      and "recoveryFn env n"
    using that by (simp add: attemptRecovery_attempt recoverySucceeded_state runAttempt_state)
  have reopens: "(let p = runAttempt env (classifyError m e) n (m, w);
             m' = recoveryFailed (now (snd (snd p))) (fst p) (fst (snd p))
         in circuitBreakerState m' = OPEN \<and> lastFailureTime m' = now (snd (snd p))
            \<and> attemptRecovery env e n (m, w) = attemptRecovery env e (n + 1) (m', snd (snd p)))"
    if "circuitBreakerState m = HALF_OPEN"
      and "retryable (classifyError m e)" and "n \<le> maxRetries (classifyError m e)"
      and "\<not> recoveryFn env n"
      and "circuitBreakerThreshold (config m) \<le> failureCount m + 1"
    using that
    by (simp add: Let_def attemptRecovery_attempt recoveryFailed_state runAttempt_state)
  note whole = attemptRecovery_outcome [of env e n "(m, w)"]
  have c3: "circuitBreakerState m = OPEN
        \<and> now w - lastFailureTime m < circuitBreakerTimeout (config m) \<longrightarrow>
        \<not> fst (attemptRecovery env e n (m, w))
        \<and> circuitBreakerState (fst (snd (attemptRecovery env e n (m, w)))) = OPEN
        \<and> recoveryAttempts (fst (snd (attemptRecovery env e n (m, w)))) = recoveryAttempts m
        \<and> failureCount (fst (snd (attemptRecovery env e n (m, w)))) = failureCount m
        \<and> snd (snd (attemptRecovery env e n (m, w))) = w"
    using suppressed by blast
  have c4: "circuitBreakerState m = OPEN
        \<and> circuitBreakerTimeout (config m) \<le> now w - lastFailureTime m
        \<and> retryable (classifyError m e) \<and> n \<le> maxRetries (classifyError m e) \<longrightarrow>
        circuitBreakerState (fst (snd (runAttempt env (classifyError m e) n (m, w)))) = HALF_OPEN
        \<and> attemptRecovery env e n (m, w)
            = attemptRecovery env e n (setCircuitBreakerState HALF_OPEN m, w)"
    using probe by blast
  have c5: "circuitBreakerState m = HALF_OPEN
        \<and> retryable (classifyError m e) \<and> n \<le> maxRetries (classifyError m e)
        \<and> recoveryFn env n \<longrightarrow>
        fst (attemptRecovery env e n (m, w))
        \<and> circuitBreakerState (fst (snd (attemptRecovery env e n (m, w)))) = CLOSED"
    using closes by blast
  have c6: "circuitBreakerState m = HALF_OPEN
        \<and> retryable (classifyError m e) \<and> n \<le> maxRetries (classifyError m e)
        \<and> \<not> recoveryFn env n
        \<and> circuitBreakerThreshold (config m) \<le> failureCount m + 1 \<longrightarrow>
        (let p = runAttempt env (classifyError m e) n (m, w);
             m' = recoveryFailed (now (snd (snd p))) (fst p) (fst (snd p))
         in circuitBreakerState m' = OPEN \<and> lastFailureTime m' = now (snd (snd p))
            \<and> attemptRecovery env e n (m, w) = attemptRecovery env e (n + 1) (m', snd (snd p)))"
    using reopens by (intro impI) (elim conjE)
  have c7: "\<not> fst (attemptRecovery env e n (m, w)) \<longrightarrow>
        circuitBreakerState (fst (snd (attemptRecovery env e n (m, w)))) = OPEN"
    using whole by blast
  have c8: "fst (attemptRecovery env e n (m, w)) \<longrightarrow>
        circuitBreakerState (fst (snd (attemptRecovery env e n (m, w)))) = CLOSED"
    using whole by blast
  have c9: "circuitBreakerState (fst (snd (attemptRecovery env e n (m, w)))) = OPEN \<longrightarrow>
        attemptRecovery env e n (m, w) = (False, m, w)
        \<or> lastFailureTime (fst (snd (attemptRecovery env e n (m, w))))
            = now (snd (snd (attemptRecovery env e n (m, w))))"
    using whole by (cases "fst (attemptRecovery env e n (m, w))") auto
  show ?thesis
    by (intro conjI) (fact start failed c3 c4 c5 c6 c7 c8 c9)+
qed

theorem circuit_breaker_transitions_witness:
  "circuitBreakerState (createErrorRecoveryManager DEFAULT_RECOVERY_CONFIG) = CLOSED
   \<and> circuitBreakerState openedByThreshold = OPEN
   \<and> now (worldAt 100000) - lastFailureTime openedByThreshold
       < circuitBreakerTimeout (config openedByThreshold)
   \<and> \<not> fst (attemptRecovery failsOnceEnv CONNECTION_FAILED 1 (openedByThreshold, worldAt 100000))
   \<and> snd (snd (attemptRecovery failsOnceEnv CONNECTION_FAILED 1 (openedByThreshold, worldAt 100000)))
       = worldAt 100000
   \<and> circuitBreakerTimeout (config openedByThreshold)
       \<le> now (worldAt 130000) - lastFailureTime openedByThreshold
   \<and> circuitBreakerState (fst (snd (runAttempt failsOnceEnv
         (classifyError openedByThreshold CONNECTION_FAILED) 2 (openedByThreshold, worldAt 130000))))
       = HALF_OPEN
   \<and> recoveryFn failsOnceEnv 2
   \<and> fst (attemptRecovery failsOnceEnv CONNECTION_FAILED 2
         (setCircuitBreakerState HALF_OPEN openedByThreshold, worldAt 130000))
   \<and> circuitBreakerState (fst (snd (attemptRecovery failsOnceEnv CONNECTION_FAILED 2
         (setCircuitBreakerState HALF_OPEN openedByThreshold, worldAt 130000)))) = CLOSED
   \<and> \<not> recoveryFn failsOnceEnv 1
   \<and> circuitBreakerState (recoveryFailed 132100
         \<lparr>attempt = 1, attemptStrategy = EXPONENTIAL_BACKOFF, delay = 2100, timestamp = 130000,
          success = False\<rparr>
         (setCircuitBreakerState HALF_OPEN openedByThreshold)) = OPEN
   \<and> \<not> fst (attemptRecovery failsOnceEnv CONNECTION_FAILED 1
         (setCircuitBreakerState HALF_OPEN openedByThreshold, worldAt 130000))
   \<and> circuitBreakerState (fst (snd (attemptRecovery failsOnceEnv CONNECTION_FAILED 1
         (setCircuitBreakerState HALF_OPEN openedByThreshold, worldAt 130000)))) = OPEN"
proof -
  let ?a = "\<lparr>attempt = 1, attemptStrategy = EXPONENTIAL_BACKOFF, delay = 2100,
             timestamp = 130000, success = False\<rparr>"
  let ?h = "setCircuitBreakerState HALF_OPEN openedByThreshold"
  note early = circuit_breaker_transitions
      [of DEFAULT_RECOVERY_CONFIG 132100 ?a openedByThreshold "worldAt 100000" failsOnceEnv
          CONNECTION_FAILED 1]
  note late = circuit_breaker_transitions
      [of DEFAULT_RECOVERY_CONFIG 132100 ?a openedByThreshold "worldAt 130000" failsOnceEnv
          CONNECTION_FAILED 2]
  note succeeds = circuit_breaker_transitions
      [of DEFAULT_RECOVERY_CONFIG 132100 ?a ?h "worldAt 130000" failsOnceEnv CONNECTION_FAILED 2]
  note fails = circuit_breaker_transitions
      [of DEFAULT_RECOVERY_CONFIG 132100 ?a ?h "worldAt 130000" failsOnceEnv CONNECTION_FAILED 1]
  have opened: "circuitBreakerState openedByThreshold = OPEN"
    by code_simp
  have before: "now (worldAt 100000) - lastFailureTime openedByThreshold
                 < circuitBreakerTimeout (config openedByThreshold)"
    by code_simp
  have after: "circuitBreakerTimeout (config openedByThreshold)
                 \<le> now (worldAt 130000) - lastFailureTime openedByThreshold"
    by code_simp
  have budget: "retryable (classifyError openedByThreshold CONNECTION_FAILED)"
    "2 \<le> maxRetries (classifyError openedByThreshold CONNECTION_FAILED)"
    "retryable (classifyError ?h CONNECTION_FAILED)"
    "2 \<le> maxRetries (classifyError ?h CONNECTION_FAILED)"
    "1 \<le> maxRetries (classifyError ?h CONNECTION_FAILED)"
    by code_simp+
  have half: "circuitBreakerState ?h = HALF_OPEN"
    by code_simp
  have reached: "circuitBreakerThreshold (config ?h) \<le> failureCount ?h + 1"
    by code_simp
  have fn: "recoveryFn failsOnceEnv 2" "\<not> recoveryFn failsOnceEnv 1"
    by code_simp+
  have 1: "circuitBreakerState (createErrorRecoveryManager DEFAULT_RECOVERY_CONFIG) = CLOSED"
    using early by blast
  have 2: "\<not> fst (attemptRecovery failsOnceEnv CONNECTION_FAILED 1 (openedByThreshold, worldAt 100000))
     \<and> snd (snd (attemptRecovery failsOnceEnv CONNECTION_FAILED 1 (openedByThreshold, worldAt 100000)))
       = worldAt 100000"
    using early opened before by blast
  have 3: "circuitBreakerState (fst (snd (runAttempt failsOnceEnv
         (classifyError openedByThreshold CONNECTION_FAILED) 2 (openedByThreshold, worldAt 130000))))
       = HALF_OPEN"
    using late opened after budget by blast
  have 4: "fst (attemptRecovery failsOnceEnv CONNECTION_FAILED 2 (?h, worldAt 130000))
   \<and> circuitBreakerState (fst (snd (attemptRecovery failsOnceEnv CONNECTION_FAILED 2
         (?h, worldAt 130000)))) = CLOSED"
    using succeeds half budget fn by blast
  have 5: "circuitBreakerState (recoveryFailed 132100 ?a ?h) = OPEN"
    using fails reached by simp
  have 6: "\<not> fst (attemptRecovery failsOnceEnv CONNECTION_FAILED 1 (?h, worldAt 130000))"
    by code_simp
  have 7: "circuitBreakerState (fst (snd (attemptRecovery failsOnceEnv CONNECTION_FAILED 1
         (?h, worldAt 130000)))) = OPEN"
    using fails 6 by blast
  show ?thesis
    using opened before after fn 1 2 3 4 5 6 7 by blast
qed

theorem half_open_failure_counterexample:
  "circuitBreakerState defaultManager = CLOSED
   \<and> circuitBreakerState openedByParseError = OPEN
   \<and> failureCount openedByParseError = 0
   \<and> circuitBreakerTimeout (config openedByParseError)
       \<le> now (worldAt 60000) - lastFailureTime openedByParseError
   \<and> circuitBreakerState (fst (snd probeAfterParseError)) = HALF_OPEN
   \<and> \<not> recoveryFn failsOnceEnv 1
   \<and> now (snd (snd probeAfterParseError)) = 62100
   \<and> circuitBreakerState failedProbe = HALF_OPEN
   \<and> lastFailureTime failedProbe = 0
   \<and> attemptRecovery failsOnceEnv CONNECTION_FAILED 1 (openedByParseError, worldAt 60000)
       = attemptRecovery failsOnceEnv CONNECTION_FAILED 2 (failedProbe, snd (snd probeAfterParseError))
   \<and> recoveryFnCalls (snd (snd (attemptRecovery failsOnceEnv CONNECTION_FAILED 1
         (openedByParseError, worldAt 60000)))) = 2"
proof -
  have 1: "circuitBreakerState defaultManager = CLOSED"
    "circuitBreakerState openedByParseError = OPEN"
    "failureCount openedByParseError = 0"
    by code_simp+
  have 2: "circuitBreakerTimeout (config openedByParseError)
       \<le> now (worldAt 60000) - lastFailureTime openedByParseError"
    by code_simp
  have 3: "circuitBreakerState (fst (snd probeAfterParseError)) = HALF_OPEN"
    "\<not> recoveryFn failsOnceEnv 1"
    "now (snd (snd probeAfterParseError)) = 62100"
    by code_simp+
  have 4: "circuitBreakerState failedProbe = HALF_OPEN"
    "lastFailureTime failedProbe = 0"
    by code_simp+
  have budget: "retryable (classifyError openedByParseError CONNECTION_FAILED)"
    "1 \<le> maxRetries (classifyError openedByParseError CONNECTION_FAILED)"
    by code_simp+
  have 5: "attemptRecovery failsOnceEnv CONNECTION_FAILED 1 (openedByParseError, worldAt 60000)
       = attemptRecovery failsOnceEnv CONNECTION_FAILED 2 (failedProbe, snd (snd probeAfterParseError))"
    using budget 2 3(2)
    by (simp add: attemptRecovery_attempt failedProbe_def probeAfterParseError_def)
  have 6: "recoveryFnCalls (snd (snd (attemptRecovery failsOnceEnv CONNECTION_FAILED 1
         (openedByParseError, worldAt 60000)))) = 2"
    by code_simp
  show ?thesis
    using 1 2 3 4 5 6 by blast
qed


subsection \<open>The backoff delay\<close>

text \<open>
  Claim C4. For every error classification with the \<open>exponential_backoff\<close> strategy, a
  non-negative base delay and a backoff multiplier of at least 1, the delay before jitter
  does not decrease from one attempt number to a later one (attempt numbers from 1), and
  the delay returned, whatever the jitter drawn, never exceeds the configured maximum.
\<close>

theorem exponential_backoff_monotone_bounded:
  assumes "strategy c = EXPONENTIAL_BACKOFF"
    and "0 \<le> baseDelay c" and "1 \<le> backoffMultiplier (config m)"
    and "1 \<le> a" and "a \<le> b"
  shows "strategyDelay m c a \<le> strategyDelay m c b
         \<and> calculateDelay m c a r \<le> maxDelay (config m)
         \<and> calculateDelay m c b r' \<le> maxDelay (config m)"
proof -
  have "power_int (backoffMultiplier (config m)) (a - 1)
        \<le> power_int (backoffMultiplier (config m)) (b - 1)"
    using assms by (intro power_int_increasing) simp_all
  then have "strategyDelay m c a \<le> strategyDelay m c b"
    using assms by (simp add: strategyDelay_def mult_left_mono)
  then show ?thesis
    by (simp add: calculateDelay_le_maxDelay)
qed

theorem exponential_backoff_monotone_bounded_witness:
  "strategyDelay defaultManager (ERROR_CLASSIFICATION_RULES CONNECTION_FAILED) 1 = 2000
   \<and> strategyDelay defaultManager (ERROR_CLASSIFICATION_RULES CONNECTION_FAILED) 5 = 32000
   \<and> strategyDelay defaultManager (ERROR_CLASSIFICATION_RULES CONNECTION_FAILED) 1
       \<le> strategyDelay defaultManager (ERROR_CLASSIFICATION_RULES CONNECTION_FAILED) 5
   \<and> calculateDelay defaultManager (ERROR_CLASSIFICATION_RULES CONNECTION_FAILED) 1 (1 / 2) = 2100
   \<and> calculateDelay defaultManager (ERROR_CLASSIFICATION_RULES CONNECTION_FAILED) 5 (1 / 2) = 30000
   \<and> calculateDelay defaultManager (ERROR_CLASSIFICATION_RULES CONNECTION_FAILED) 5 (1 / 2)
       \<le> maxDelay (config defaultManager)"
  using exponential_backoff_monotone_bounded
          [of "ERROR_CLASSIFICATION_RULES CONNECTION_FAILED" defaultManager 1 5 "1 / 2" "1 / 2"]
  by (simp add: defaultManager_def createErrorRecoveryManager_def DEFAULT_RECOVERY_CONFIG_def
        strategyDelay_def calculateDelay_def Let_def)

subsection \<open>The classification\<close>

text \<open>
  Claim C5. For every error kind: when the network quality is \<open>poor\<close>, the
  classification is the table's with the strategy replaced by linear backoff, maxRetries
  by max(1, floor(maxRetries / 2)) and the base delay doubled; when it is \<open>offline\<close>,
  the table's with retryable false and the strategy \<open>fallback\<close>; for every other
  quality, and with no metrics yet, the table's entry unchanged.
\<close>

theorem classifyError_by_quality:
  "(networkMetrics m = Some POOR \<longrightarrow>
      classifyError m e =
        (ERROR_CLASSIFICATION_RULES e)
          \<lparr>strategy := LINEAR_BACKOFF,
           maxRetries := max 1 (maxRetries (ERROR_CLASSIFICATION_RULES e) div 2),
           baseDelay := 2 * baseDelay (ERROR_CLASSIFICATION_RULES e)\<rparr>)
   \<and> (networkMetrics m = Some OFFLINE \<longrightarrow>
      classifyError m e =
        (ERROR_CLASSIFICATION_RULES e)\<lparr>retryable := False, strategy := FALLBACK\<rparr>)
   \<and> (networkMetrics m \<noteq> Some POOR \<and> networkMetrics m \<noteq> Some OFFLINE \<longrightarrow>
      classifyError m e = ERROR_CLASSIFICATION_RULES e)"
  by (simp add: classifyError_def Let_def mult.commute)

theorem classifyError_by_quality_witness:
  "classifyError (defaultManager\<lparr>networkMetrics := Some POOR\<rparr>) CONNECTION_FAILED =
     \<lparr>type = CONNECTION_FAILED, severity = high, retryable = True,
      strategy = LINEAR_BACKOFF, maxRetries = 2, baseDelay = 4000\<rparr>
   \<and> classifyError (defaultManager\<lparr>networkMetrics := Some POOR\<rparr>) AUTH_ERROR =
     \<lparr>type = AUTH_ERROR, severity = critical, retryable = False,
      strategy = LINEAR_BACKOFF, maxRetries = 1, baseDelay = 0\<rparr>
   \<and> classifyError (defaultManager\<lparr>networkMetrics := Some OFFLINE\<rparr>) CONNECTION_FAILED =
     \<lparr>type = CONNECTION_FAILED, severity = high, retryable = False,
      strategy = FALLBACK, maxRetries = 5, baseDelay = 2000\<rparr>
   \<and> classifyError (defaultManager\<lparr>networkMetrics := Some FAIR\<rparr>) CONNECTION_FAILED =
     ERROR_CLASSIFICATION_RULES CONNECTION_FAILED
   \<and> classifyError defaultManager TIMEOUT_ERROR = ERROR_CLASSIFICATION_RULES TIMEOUT_ERROR"
  using classifyError_by_quality [of "defaultManager\<lparr>networkMetrics := Some POOR\<rparr>" CONNECTION_FAILED]
        classifyError_by_quality [of "defaultManager\<lparr>networkMetrics := Some POOR\<rparr>" AUTH_ERROR]
        classifyError_by_quality [of "defaultManager\<lparr>networkMetrics := Some OFFLINE\<rparr>" CONNECTION_FAILED]
        classifyError_by_quality [of "defaultManager\<lparr>networkMetrics := Some FAIR\<rparr>" CONNECTION_FAILED]
        classifyError_by_quality [of defaultManager TIMEOUT_ERROR]
  by (simp add: defaultManager_def createErrorRecoveryManager_def)

subsection \<open>Errors that are never retried\<close>

text \<open>
  Claim C6. For an error of kind \<open>auth_error\<close> or \<open>parse_error\<close>, whatever the
  configuration (its maxRetries included), the network quality, the state of the manager
  and the attempt count, \<open>attemptRecovery\<close> returns false, never executes the supplied
  recovery function and records no recovery attempt.
\<close>

theorem auth_parse_never_retried:
  assumes "e = AUTH_ERROR \<or> e = PARSE_ERROR"
  shows "\<not> fst (attemptRecovery env e attemptCount (m, w))
         \<and> recoveryFnCalls (snd (snd (attemptRecovery env e attemptCount (m, w))))
             = recoveryFnCalls w
         \<and> recoveryAttempts (fst (snd (attemptRecovery env e attemptCount (m, w))))
             = recoveryAttempts m"
  using not_retryable_auth_parse [OF assms, of m]
  by (simp add: attemptRecovery_refused handleMaxRetriesExceeded_fields)

theorem auth_parse_never_retried_witness:
  "\<not> fst (attemptRecovery failsOnceEnv AUTH_ERROR 1
         (defaultManager\<lparr>config := DEFAULT_RECOVERY_CONFIG\<lparr>configMaxRetries := 100\<rparr>\<rparr>, worldAt 0))
   \<and> recoveryFnCalls (snd (snd (attemptRecovery failsOnceEnv AUTH_ERROR 1
         (defaultManager\<lparr>config := DEFAULT_RECOVERY_CONFIG\<lparr>configMaxRetries := 100\<rparr>\<rparr>, worldAt 0))))
       = 0
   \<and> recoveryAttempts (fst (snd (attemptRecovery failsOnceEnv AUTH_ERROR 1
         (defaultManager\<lparr>config := DEFAULT_RECOVERY_CONFIG\<lparr>configMaxRetries := 100\<rparr>\<rparr>, worldAt 0))))
       = []"
  using auth_parse_never_retried [of AUTH_ERROR failsOnceEnv 1
          "defaultManager\<lparr>config := DEFAULT_RECOVERY_CONFIG\<lparr>configMaxRetries := 100\<rparr>\<rparr>"
          "worldAt 0"]
  by (simp add: defaultManager_def worldAt_def createErrorRecoveryManager_def)

text \<open>
  Claim C10. For every error whose classification is not retryable (the low-severity
  \<open>parse_error\<close> among them) and for every error whose attempt count exceeds its
  maxRetries, one call of \<open>attemptRecovery\<close> returns false with the circuit breaker
  \<open>open\<close> and the time of the last failure set to the time of the call, although it
  executed no recovery, recorded no attempt and left the clock where it was.
\<close>

theorem refused_call_opens_breaker:
  assumes "\<not> retryable (classifyError m e) \<or> attemptCount > maxRetries (classifyError m e)"
  shows "\<not> fst (attemptRecovery env e attemptCount (m, w))
         \<and> circuitBreakerState (fst (snd (attemptRecovery env e attemptCount (m, w)))) = OPEN
         \<and> lastFailureTime (fst (snd (attemptRecovery env e attemptCount (m, w)))) = now w
         \<and> recoveryAttempts (fst (snd (attemptRecovery env e attemptCount (m, w))))
             = recoveryAttempts m
         \<and> snd (snd (attemptRecovery env e attemptCount (m, w))) = w
         \<and> \<not> retryable (classifyError m PARSE_ERROR)
         \<and> severity (classifyError m PARSE_ERROR) = low"
  using assms
  by (simp add: attemptRecovery_refused handleMaxRetriesExceeded_fields classifyError_def Let_def)

theorem refused_call_opens_breaker_witness:
  "circuitBreakerState defaultManager = CLOSED
   \<and> \<not> fst (attemptRecovery failsOnceEnv PARSE_ERROR 1 (defaultManager, worldAt 1234))
   \<and> circuitBreakerState (fst (snd (attemptRecovery failsOnceEnv PARSE_ERROR 1
         (defaultManager, worldAt 1234)))) = OPEN
   \<and> lastFailureTime (fst (snd (attemptRecovery failsOnceEnv PARSE_ERROR 1
         (defaultManager, worldAt 1234)))) = 1234
   \<and> recoveryFnCalls (snd (snd (attemptRecovery failsOnceEnv PARSE_ERROR 1
         (defaultManager, worldAt 1234)))) = 0
   \<and> circuitBreakerState (fst (snd (attemptRecovery failsOnceEnv CONNECTION_LOST 4
         (defaultManager, worldAt 1234)))) = OPEN"
  using refused_call_opens_breaker [of defaultManager PARSE_ERROR 1 failsOnceEnv "worldAt 1234"]
        refused_call_opens_breaker [of defaultManager CONNECTION_LOST 4 failsOnceEnv "worldAt 1234"]
  by (simp add: defaultManager_def worldAt_def createErrorRecoveryManager_def classifyError_def)

section \<open>Properties of the streaming service\<close>

subsection \<open>Chunk boundaries\<close>

lemma split_not_Nil [simp]: "split sep s \<noteq> []"
  by (induction s) (auto split: list.splits)

lemma split_append:
  "split sep (a @ b) = butlast (split sep a) @ split sep (last (split sep a) @ b)"
proof (induction a)
  case Nil
  show ?case by simp
next
  case (Cons c a)
  show ?case
  proof (cases "c = sep")
    case True
    with Cons show ?thesis by simp
  next
    case False
    obtain x xs where sa: "split sep a = x # xs"
      by (cases "split sep a") auto
    show ?thesis
    proof (cases xs)
      case Nil
      with Cons False sa show ?thesis by simp
    next
      case (Cons y ys)
      with Cons.IH False sa show ?thesis by simp
    qed
  qed
qed

lemma sep_notin_last_split: "sep \<notin> set (last (split sep s))"
proof (induction s)
  case Nil
  show ?case by simp
next
  case (Cons c s)
  obtain x xs where sa: "split sep s = x # xs"
    by (cases "split sep s") auto
  with Cons show ?case
    by (cases xs) auto
qed

lemma split_without_sep: "sep \<notin> set s \<Longrightarrow> split sep s = [s]"
  by (induction s) (auto split: list.splits)

lemma decode_append:
  "decode d (xs @ ys) =
     (case decode d xs of (d1, out1) \<Rightarrow> (case decode d1 ys of (d2, out2) \<Rightarrow> (d2, out1 @ out2)))"
  by (induction xs arbitrary: d) (auto split: prod.splits)

lemma processLines_append:
  "processLines rt k (xs @ ys) s = processLines rt (k + length xs) ys (processLines rt k xs s)"
  by (induction xs arbitrary: k s) auto

lemma readChunk_append:
  "readChunk rt b (readChunk rt a l) = readChunk rt (a @ b) l"
proof -
  obtain d1 t1 where a: "decode (decoder l) a = (d1, t1)"
    by (cases "decode (decoder l) a")
  obtain d2 t2 where b: "decode d1 b = (d2, t2)"
    by (cases "decode d1 b")
  have ab: "decode (decoder l) (a @ b) = (d2, t1 @ t2)"
    by (simp add: decode_append a b)
  let ?l1 = "split 0xA (buffer l @ t1)"
  let ?l2 = "split 0xA (last ?l1 @ t2)"
  have whole: "split 0xA (buffer l @ t1 @ t2) = butlast ?l1 @ ?l2"
    using split_append [of "0xA" "buffer l @ t1" t2] by simp
  have lines: "butlast (butlast ?l1 @ ?l2) = butlast ?l1 @ butlast ?l2"
    by (simp add: butlast_append)
  have rest: "last (butlast ?l1 @ ?l2) = last ?l2"
    by simp
  show ?thesis
    by (simp add: readChunk_def a b ab Let_def whole lines rest processLines_append add.assoc
          del: length_butlast)
qed

lemma readChunk_buffer: "0xA \<notin> set (buffer (readChunk rt a l))"
  using sep_notin_last_split [of "0xA"]
  by (auto simp: readChunk_def Let_def split: prod.splits)

lemma readChunk_Nil: "0xA \<notin> set (buffer l) \<Longrightarrow> readChunk rt [] l = l"
  by (simp add: readChunk_def Let_def split_without_sep)

lemma readLoop_concat:
  "0xA \<notin> set (buffer l) \<Longrightarrow> readLoop rt chunks e l = readLoop rt [concat chunks] e l"
proof (induction chunks arbitrary: l)
  case Nil
  then show ?case
    by (simp add: readChunk_Nil)
next
  case (Cons c chunks)
  have "readLoop rt (c # chunks) e l = readLoop rt [concat chunks] e (readChunk rt c l)"
    using Cons.IH [of "readChunk rt c l"] by (simp add: readChunk_buffer)
  also have "\<dots> = readLoop rt [c @ concat chunks] e l"
    by (simp add: readChunk_append)
  finally show ?case by simp
qed

subsection \<open>Lines that end the stream or fail to parse\<close>

lemma data_line_not_skipped:
  "startsWith l (js ''data: '') \<Longrightarrow> l \<noteq> [] \<and> \<not> startsWith l (js '':'')"
  by (cases l) (auto simp: startsWith_def)

lemma state_updateConnectionState [simp]:
  "state (connectionStatus (updateConnectionState st s)) = st"
  by (simp add: updateConnectionState_def callHandler_def)

lemma updateConnectionState_same:
  "state (connectionStatus s) = st \<Longrightarrow> updateConnectionState st s = s"
  by (simp add: updateConnectionState_def)

lemma updateConnectionState_DISCONNECTED_fields:
  "currentMessage (updateConnectionState DISCONNECTED s) = currentMessage s"
  "currentSources (updateConnectionState DISCONNECTED s) = currentSources s"
  "currentCitations (updateConnectionState DISCONNECTED s) = currentCitations s"
  "currentClaims (updateConnectionState DISCONNECTED s) = currentClaims s"
  "currentClaimsGroup (updateConnectionState DISCONNECTED s) = currentClaimsGroup s"
  "error (connectionStatus (updateConnectionState DISCONNECTED s)) = error (connectionStatus s)"
  "retryCount (connectionStatus (updateConnectionState DISCONNECTED s))
     = retryCount (connectionStatus s)"
  "retryTimeout (updateConnectionState DISCONNECTED s) = retryTimeout s"
  "errorEventTimers (updateConnectionState DISCONNECTED s) = errorEventTimers s"
  "handlerCalls (updateConnectionState DISCONNECTED s) =
     handlerCalls s
     @ (if state (connectionStatus s) = DISCONNECTED then []
        else [OnConnectionStateChange DISCONNECTED])"
  by (simp_all add: updateConnectionState_def callHandler_def)

lemma processSSELine_DONE:
  "trim line = js ''data: [DONE]'' \<Longrightarrow>
   processSSELine rt t line s = updateConnectionState DISCONNECTED s"
  by (simp add: processSSELine_def startsWith_def)

lemma handleSSEEvent_keeps_disconnected:
  "state (connectionStatus s) = DISCONNECTED \<Longrightarrow>
   state (connectionStatus (snd (handleSSEEvent rt t d s))) = DISCONNECTED"
  by (simp add: handleSSEEvent_def Let_def handleStartEvent_def handleTokenEvent_def
        handleSourcesEvent_def handleClaimsEvent_def handleCitationEvent_def
        handleClaimEvent_def handleDoneEvent_def handleErrorEvent_def
        handleHeartbeatEvent_def resetHeartbeatTimeout_def callHandler_def
      split: option.splits)

lemma processSSELine_keeps_disconnected:
  assumes "state (connectionStatus s) = DISCONNECTED"
  shows "state (connectionStatus (processSSELine rt t line s)) = DISCONNECTED"
proof (cases "jsonParse rt (drop 6 (trim line))")
  case None
  with assms show ?thesis
    by (simp add: processSSELine_def Let_def parseErrorCaught_def callHandler_def)
next
  case (Some parsed)
  obtain ok s' where h: "handleSSEEvent rt t parsed s = (ok, s')"
    by (cases "handleSSEEvent rt t parsed s")
  have "state (connectionStatus s') = DISCONNECTED"
    using handleSSEEvent_keeps_disconnected [OF assms, of rt t parsed] h by simp
  with assms Some h show ?thesis
    by (cases ok) (simp_all add: processSSELine_def Let_def parseErrorCaught_def callHandler_def)
qed

lemma processLines_keeps_disconnected:
  "state (connectionStatus s) = DISCONNECTED \<Longrightarrow>
   state (connectionStatus (processLines rt k lines s)) = DISCONNECTED"
  by (induction lines arbitrary: k s) (simp_all add: processSSELine_keeps_disconnected)

lemma processSSELine_malformed:
  "startsWith (trim line) (js ''data: '') \<Longrightarrow> drop 6 (trim line) \<noteq> js ''[DONE]'' \<Longrightarrow>
   jsonParse rt (drop 6 (trim line)) = None \<Longrightarrow>
   processSSELine rt t line s = parseErrorCaught s"
  using data_line_not_skipped [of "trim line"]
  by (simp add: processSSELine_def Let_def)

subsection \<open>Evaluating the example streams\<close>

lemma ascii_byte:
  "c < 128 \<Longrightarrow> (of_nat c :: byte) \<le> 0x7F \<and> unat (of_nat c :: byte) = c"
  by (simp add: word_le_nat_alt unat_of_nat)

lemma decode_ascii:
  "bytesNeeded d = 0 \<Longrightarrow> \<forall>c\<in>set s. c < 128 \<Longrightarrow> s \<noteq> [] \<Longrightarrow>
   decode d (asciiBytes s) = (d\<lparr>bomSeen := True\<rparr>, s)"
proof (induction s arbitrary: d)
  case Nil
  then show ?case by simp
next
  case (Cons c s)
  have c: "(of_nat c :: byte) \<le> 0x7F" "unat (of_nat c :: byte) = c" "c < 128"
    using Cons.prems ascii_byte [of c] by simp_all
  have step: "utf8Handler d (of_nat c) = (d, [c])"
    using Cons.prems c by (simp add: utf8Handler_def utf8Lead_def)
  show ?case
  proof (cases "s = []")
    case True
    then show ?thesis
      using c by (simp add: asciiBytes_def step utf16_def)
  next
    case False
    then have rest: "decode (d\<lparr>bomSeen := True\<rparr>) (asciiBytes s) = (d\<lparr>bomSeen := True\<rparr>, s)"
      using Cons.IH [of "d\<lparr>bomSeen := True\<rparr>"] Cons.prems by simp
    show ?thesis
    proof (cases "bomSeen d")
      case True
      then have "d\<lparr>bomSeen := True\<rparr> = d"
        by simp
      with rest True show ?thesis
        using c by (simp add: asciiBytes_def step utf16_def)
    next
      case False
      with rest show ?thesis
        using c by (simp add: asciiBytes_def step utf16_def)
    qed
  qed
qed

lemma processStream_ascii:
  assumes "text \<noteq> []" and "\<forall>c\<in>set text. c < 128"
  shows "processStream rt ([asciiBytes text], EndOfInput) s =
           updateConnectionState DISCONNECTED
             (processLines rt 0 (butlast (split 0xA text)) (updateConnectionState CONNECTED s))"
  using assms
  by (simp add: processStream_def readChunk_def Let_def decode_ascii newTextDecoder_def)

lemma split_sseLine:
  assumes "0xA \<notin> set payload"
  shows "split 0xA (sseLine payload @ rest) = (js ''data: '' @ payload) # [] # split 0xA rest"
    and "split 0xA (sseLine payload) = [js ''data: '' @ payload, [], []]"
proof -
  have gen: "split 0xA (a @ [0xA, 0xA] @ rest) = a # [] # split 0xA rest"
    if "0xA \<notin> set a" for a :: jsstring and rest
    using that by (induction a) (auto split: list.splits)
  have a: "0xA \<notin> set (js ''data: '' @ payload)"
    using assms by auto
  show "split 0xA (sseLine payload @ rest) = (js ''data: '' @ payload) # [] # split 0xA rest"
    using gen [OF a, of rest] by (simp add: sseLine_def)
  show "split 0xA (sseLine payload) = [js ''data: '' @ payload, [], []]"
    using gen [OF a, of "[]"] by (simp add: sseLine_def)
qed

lemmas example_defs =
  Let_def tokenPayload_def exampleRuntime_def exampleParse_def exampleTime_def newService_def
  createStreamingService_def DEFAULT_SSE_CONFIG_def updateConnectionState_def callHandler_def
  processSSELine_def trim_def isWhiteSpace_def startsWith_def handleSSEEvent_def
  handleTokenEvent_def handleStartEvent_def handleDoneEvent_def jsOr_def tokenData_def
  startPayload_def startData_def donePayload_def doneData_def malformedPayload_def
  parseErrorCaught_def tokenEvent_def startEvent_def doneEvent_def parseErrorEvent_def

lemma accent_result:
  "processStream exampleRuntime (accentChunks, EndOfInput) newService =
     newService
       \<lparr>connectionStatus := (connectionStatus newService)\<lparr>lastEventTime := exampleTime\<rparr>,
        handlerCalls :=
          [OnConnectionStateChange CONNECTED, OnToken (tokenEvent [0xE9]),
           OnConnectionStateChange DISCONNECTED],
        currentMessage := [0xE9]\<rparr>"
  by (simp add: accentChunks_def processStream_def readChunk_def decode_append decode_ascii
        newTextDecoder_def utf8Handler_def utf8Lead_def utf16_def example_defs)

lemma tokenOnly_result:
  "processStream exampleRuntime ([tokenOnlyStream], EndOfInput) newService =
     newService
       \<lparr>connectionStatus := (connectionStatus newService)\<lparr>lastEventTime := exampleTime\<rparr>,
        handlerCalls :=
          [OnConnectionStateChange CONNECTED, OnToken (tokenEvent (js ''Hel'')),
           OnConnectionStateChange DISCONNECTED],
        currentMessage := js ''Hel''\<rparr>"
proof -
  have ascii: "tokenOnlyText \<noteq> [] \<and> (\<forall>c\<in>set tokenOnlyText. c < 128)"
    by (simp add: tokenOnlyText_def sseLine_def tokenPayload_def)
  have lines: "butlast (split 0xA tokenOnlyText) = [js ''data: '' @ tokenPayload (js ''Hel''), []]"
    by (simp add: tokenOnlyText_def split_sseLine tokenPayload_def)
  show ?thesis
    unfolding tokenOnlyStream_def using ascii
    by (simp add: processStream_ascii lines example_defs)
qed

lemma doneThenToken_result:
  "processStream exampleRuntime ([doneThenTokenStream], EndOfInput) newService =
     newService
       \<lparr>connectionStatus := (connectionStatus newService)\<lparr>lastEventTime := exampleTime\<rparr>,
        handlerCalls :=
          [OnConnectionStateChange CONNECTED, OnConnectionStateChange DISCONNECTED,
           OnToken (tokenEvent (js ''world''))],
        currentMessage := js ''world''\<rparr>"
proof -
  have ascii: "doneThenTokenText \<noteq> [] \<and> (\<forall>c\<in>set doneThenTokenText. c < 128)"
    by (simp add: doneThenTokenText_def sseLine_def tokenPayload_def)
  have lines: "butlast (split 0xA doneThenTokenText) =
      [js ''data: [DONE]'', [], js ''data: '' @ tokenPayload (js ''world''), []]"
    by (simp add: doneThenTokenText_def split_sseLine tokenPayload_def)
  show ?thesis
    unfolding doneThenTokenStream_def using ascii
    by (simp add: processStream_ascii lines example_defs)
qed

lemma malformed_result:
  "processStream exampleRuntime ([malformedStream], EndOfInput) newService =
     newService
       \<lparr>connectionStatus := (connectionStatus newService)\<lparr>lastEventTime := exampleTime\<rparr>,
        handlerCalls :=
          [OnConnectionStateChange CONNECTED, OnToken (tokenEvent (js ''Hel'')),
           OnError parseErrorEvent, OnToken (tokenEvent (js ''lo '')),
           OnConnectionStateChange DISCONNECTED],
        currentMessage := js ''Hello ''\<rparr>"
proof -
  have ascii: "malformedText \<noteq> [] \<and> (\<forall>c\<in>set malformedText. c < 128)"
    by (simp add: malformedText_def sseLine_def tokenPayload_def malformedPayload_def)
  have lines: "butlast (split 0xA malformedText) =
      [js ''data: '' @ tokenPayload (js ''Hel''), [], js ''data: '' @ malformedPayload, [],
       js ''data: '' @ tokenPayload (js ''lo ''), []]"
    by (simp add: malformedText_def split_sseLine tokenPayload_def malformedPayload_def)
  show ?thesis
    unfolding malformedStream_def using ascii
    by (simp add: processStream_ascii lines example_defs)
qed

lemma hello_result:
  "processStream exampleRuntime ([helloStream], EndOfInput) newService =
     newService
       \<lparr>connectionStatus := (connectionStatus newService)\<lparr>lastEventTime := exampleTime\<rparr>,
        handlerCalls :=
          [OnConnectionStateChange CONNECTED, OnStart startEvent, OnToken (tokenEvent (js ''Hel'')),
           OnToken (tokenEvent (js ''lo '')), OnToken (tokenEvent (js ''world'')), OnDone doneEvent,
           OnConnectionStateChange DISCONNECTED],
        currentMessage := js ''Hello world''\<rparr>"
proof -
  have ascii: "helloText \<noteq> [] \<and> (\<forall>c\<in>set helloText. c < 128)"
    by (simp add: helloText_def sseLine_def tokenPayload_def startPayload_def donePayload_def)
  have lines: "butlast (split 0xA helloText) =
     [js ''data: '' @ startPayload, [], js ''data: '' @ tokenPayload (js ''Hel''), [],
      js ''data: '' @ tokenPayload (js ''lo ''), [], js ''data: '' @ tokenPayload (js ''world''), [],
      js ''data: '' @ donePayload, []]"
    by (simp add: helloText_def split_sseLine tokenPayload_def startPayload_def donePayload_def)
  show ?thesis
    unfolding helloStream_def using ascii
    by (simp add: processStream_ascii lines example_defs)
qed

lemma handleSSEEvent_token:
  assumes "getField d (js ''type'') = JStr (js ''token'')"
  shows "currentMessage (snd (handleSSEEvent rt t d s)) =
           currentMessage s @ toString (jsOr (getField d (js ''content'')) (JStr []))"
proof -
  have "d \<noteq> JNull" "d \<noteq> JUndefined"
    using assms by auto
  then show ?thesis
    using assms
    by (simp add: handleSSEEvent_def handleTokenEvent_def Let_def callHandler_def)
qed

lemma done_line:
  "startsWith l (js ''data: '') \<Longrightarrow> drop 6 l = js ''[DONE]'' \<Longrightarrow> l = js ''data: [DONE]''"
proof -
  assume a: "startsWith l (js ''data: '')" and b: "drop 6 l = js ''[DONE]''"
  have "l = take 6 l @ drop 6 l"
    by simp
  also have "take 6 l = js ''data: ''"
    using a by (simp add: startsWith_def eval_nat_numeral)
  finally show ?thesis
    using b by simp
qed

subsection \<open>Chunking\<close>

text \<open>
  Claim C1. For every byte stream and every way of cutting it into chunks, inside a line
  or inside a multi-byte character included, and however the reads end, processing the
  chunks one at a time leaves the service exactly as processing the whole stream as one
  chunk does: the same handler calls with the same events in the same order and the same
  accumulated state. The clock is read per line of the stream, so it is the same in both
  runs.
\<close>

theorem processStream_chunking:
  "processStream rt (chunks, e) s = processStream rt ([concat chunks], e) s"
  by (simp add: processStream_def readLoop_concat [of _ rt chunks e])

theorem processStream_chunking_witness:
  "processStream exampleRuntime (accentChunks, EndOfInput) newService =
     processStream exampleRuntime ([concat accentChunks], EndOfInput) newService
   \<and> processStream exampleRuntime ([concat accentChunks], EndOfInput) newService =
     newService
       \<lparr>connectionStatus := (connectionStatus newService)\<lparr>lastEventTime := exampleTime\<rparr>,
        handlerCalls :=
          [OnConnectionStateChange CONNECTED, OnToken (tokenEvent [0xE9]),
           OnConnectionStateChange DISCONNECTED],
        currentMessage := [0xE9]\<rparr>"
  using processStream_chunking [of exampleRuntime accentChunks EndOfInput newService]
        accent_result
  by simp

subsection \<open>Token accumulation\<close>

text \<open>
  Claim C2. For every sequence of \<open>token\<close> events delivered to \<open>handleSSEEvent\<close> in
  order, each with its own clock reading, the accumulated message afterwards is the
  message before followed by the texts of their \<open>content\<close> fields in arrival order (an
  absent or empty content counts as the empty string); when every content is a string,
  that is the concatenation of the contents. After the tokens \<open>Hel\<close>, \<open>lo \<close> and
  \<open>world\<close> on a new service the message is \<open>Hello world\<close>.
\<close>

theorem token_accumulation:
  assumes "\<forall>e\<in>set events. getField (snd e) (js ''type'') = JStr (js ''token'')"
  shows "getCurrentMessage (foldl (\<lambda>s e. snd (handleSSEEvent rt (fst e) (snd e) s)) s events) =
           getCurrentMessage s
           @ concat (map (\<lambda>e. toString (jsOr (getField (snd e) (js ''content'')) (JStr []))) events)
         \<and> ((\<forall>e\<in>set events. getField (snd e) (js ''content'') = JStr (c e)) \<longrightarrow>
            getCurrentMessage (foldl (\<lambda>s e. snd (handleSSEEvent rt (fst e) (snd e) s)) s events) =
              getCurrentMessage s @ concat (map c events))"
proof -
  have general: "getCurrentMessage (foldl (\<lambda>s e. snd (handleSSEEvent rt (fst e) (snd e) s)) s events) =
           getCurrentMessage s
           @ concat (map (\<lambda>e. toString (jsOr (getField (snd e) (js ''content'')) (JStr []))) events)"
    using assms
  proof (induction events arbitrary: s)
    case Nil
    show ?case by simp
  next
    case (Cons e events)
    then show ?case
      by (simp add: getCurrentMessage_def handleSSEEvent_token)
  qed
  have strings: "map (\<lambda>e. toString (jsOr (getField (snd e) (js ''content'')) (JStr []))) events
                 = map c events"
    if "\<forall>e\<in>set events. getField (snd e) (js ''content'') = JStr (c e)"
    using that by (intro map_cong refl) (simp add: jsOr_def)
  show ?thesis
  proof (intro conjI impI)
    show "getCurrentMessage (foldl (\<lambda>s e. snd (handleSSEEvent rt (fst e) (snd e) s)) s events) =
           getCurrentMessage s
           @ concat (map (\<lambda>e. toString (jsOr (getField (snd e) (js ''content'')) (JStr []))) events)"
      by (rule general)
  next
    assume h: "\<forall>e\<in>set events. getField (snd e) (js ''content'') = JStr (c e)"
    show "getCurrentMessage (foldl (\<lambda>s e. snd (handleSSEEvent rt (fst e) (snd e) s)) s events) =
              getCurrentMessage s @ concat (map c events)"
      unfolding general strings [OF h] by (rule refl)
  qed
qed

theorem token_accumulation_witness:
  "getCurrentMessage
     (foldl (\<lambda>s e. snd (handleSSEEvent exampleRuntime (fst e) (snd e) s)) newService
        [(exampleTime, tokenData (js ''Hel'')), (exampleTime, tokenData (js ''lo '')),
         (exampleTime, tokenData (js ''world''))])
     = js ''Hello world''
   \<and> getCurrentMessage (processStream exampleRuntime ([helloStream], EndOfInput) newService)
     = js ''Hello world''
   \<and> state (connectionStatus (processStream exampleRuntime ([helloStream], EndOfInput) newService))
     = DISCONNECTED
   \<and> length (filter (\<lambda>c. c = OnDone doneEvent)
        (handlerCalls (processStream exampleRuntime ([helloStream], EndOfInput) newService))) = 1"
proof -
  let ?events = "[(exampleTime, tokenData (js ''Hel'')), (exampleTime, tokenData (js ''lo '')),
                  (exampleTime, tokenData (js ''world''))]"
  have tokens: "\<forall>e\<in>set ?events. getField (snd e) (js ''type'') = JStr (js ''token'')"
    by (simp add: tokenData_def)
  have contents: "\<forall>e\<in>set ?events. getField (snd e) (js ''content'')
                    = JStr (toString (getField (snd e) (js ''content'')))"
    by (simp add: tokenData_def)
  have "getCurrentMessage
          (foldl (\<lambda>s e. snd (handleSSEEvent exampleRuntime (fst e) (snd e) s)) newService ?events)
        = getCurrentMessage newService
          @ concat (map (\<lambda>e. toString (getField (snd e) (js ''content''))) ?events)"
    using token_accumulation [OF tokens, of exampleRuntime newService
            "\<lambda>e. toString (getField (snd e) (js ''content''))"] contents
    by blast
  also have "\<dots> = js ''Hello world''"
    by (simp add: tokenData_def getCurrentMessage_def newService_def createStreamingService_def)
  finally have dispatched: "getCurrentMessage
          (foldl (\<lambda>s e. snd (handleSSEEvent exampleRuntime (fst e) (snd e) s)) newService ?events)
        = js ''Hello world''" .
  have message: "getCurrentMessage (processStream exampleRuntime ([helloStream], EndOfInput) newService)
     = js ''Hello world''"
    unfolding hello_result by (simp add: getCurrentMessage_def)
  have final: "state (connectionStatus (processStream exampleRuntime ([helloStream], EndOfInput) newService))
     = DISCONNECTED"
    unfolding hello_result by (simp add: newService_def createStreamingService_def)
  have once: "length (filter (\<lambda>c. c = OnDone doneEvent)
        (handlerCalls (processStream exampleRuntime ([helloStream], EndOfInput) newService))) = 1"
    unfolding hello_result by simp
  show ?thesis
    using dispatched message final once by (intro conjI)
qed

subsection \<open>The end of the input\<close>

text \<open>
  Claim C7, as the code has it. When the response body reaches its natural end, the
  connection state becomes \<open>disconnected\<close> whether or not a \<open>done\<close> event or a
  \<open>[DONE]\<close> line was seen: the service is left as it was after the last chunk, with the
  state set to \<open>disconnected\<close>. The end of the input records no error, leaves the retry
  count and the retry timer as they were, and calls no handler but
  \<open>onConnectionStateChange\<close>, and that one only when the state was not \<open>disconnected\<close>
  already.
\<close>

theorem end_of_input_disconnects:
  "processStream rt (chunks, EndOfInput) s =
     updateConnectionState DISCONNECTED
       (service (readChunk rt (concat chunks)
          \<lparr>service = updateConnectionState CONNECTED s, decoder = newTextDecoder, buffer = [],
           linesProcessed = 0\<rparr>))
   \<and> state (connectionStatus (processStream rt (chunks, EndOfInput) s)) = DISCONNECTED
   \<and> error (connectionStatus (processStream rt (chunks, EndOfInput) s)) =
       error (connectionStatus (service (readChunk rt (concat chunks)
          \<lparr>service = updateConnectionState CONNECTED s, decoder = newTextDecoder, buffer = [],
           linesProcessed = 0\<rparr>)))
   \<and> retryCount (connectionStatus (processStream rt (chunks, EndOfInput) s)) =
       retryCount (connectionStatus (service (readChunk rt (concat chunks)
          \<lparr>service = updateConnectionState CONNECTED s, decoder = newTextDecoder, buffer = [],
           linesProcessed = 0\<rparr>)))
   \<and> retryTimeout (processStream rt (chunks, EndOfInput) s) =
       retryTimeout (service (readChunk rt (concat chunks)
          \<lparr>service = updateConnectionState CONNECTED s, decoder = newTextDecoder, buffer = [],
           linesProcessed = 0\<rparr>))
   \<and> handlerCalls (processStream rt (chunks, EndOfInput) s) =
       handlerCalls (service (readChunk rt (concat chunks)
          \<lparr>service = updateConnectionState CONNECTED s, decoder = newTextDecoder, buffer = [],
           linesProcessed = 0\<rparr>))
       @ (if state (connectionStatus (service (readChunk rt (concat chunks)
             \<lparr>service = updateConnectionState CONNECTED s, decoder = newTextDecoder, buffer = [],
              linesProcessed = 0\<rparr>))) = DISCONNECTED
          then [] else [OnConnectionStateChange DISCONNECTED])"
proof -
  let ?l0 = "\<lparr>service = updateConnectionState CONNECTED s, decoder = newTextDecoder, buffer = [],
              linesProcessed = 0\<rparr>"
  have "processStream rt (chunks, EndOfInput) s = readLoop rt [concat chunks] EndOfInput ?l0"
    by (simp add: processStream_def readLoop_concat [of _ rt chunks EndOfInput])
  then have eq: "processStream rt (chunks, EndOfInput) s =
      updateConnectionState DISCONNECTED (service (readChunk rt (concat chunks) ?l0))"
    by simp
  show ?thesis
    unfolding eq by (simp add: updateConnectionState_DISCONNECTED_fields)
qed

theorem end_of_input_disconnects_witness:
  "processStream exampleRuntime ([tokenOnlyStream], EndOfInput) newService =
     updateConnectionState DISCONNECTED
       (service (readChunk exampleRuntime (concat [tokenOnlyStream])
          \<lparr>service = updateConnectionState CONNECTED newService, decoder = newTextDecoder,
           buffer = [], linesProcessed = 0\<rparr>))
   \<and> state (connectionStatus (processStream exampleRuntime ([tokenOnlyStream], EndOfInput) newService))
       = DISCONNECTED
   \<and> state (connectionStatus (processStream exampleRuntime ([helloStream], EndOfInput) newService))
       = DISCONNECTED"
  using end_of_input_disconnects [of exampleRuntime "[tokenOnlyStream]" newService]
        end_of_input_disconnects [of exampleRuntime "[helloStream]" newService]
  by (intro conjI) (elim conjE, assumption)+

theorem end_of_input_without_done_counterexample:
  "processStream exampleRuntime ([tokenOnlyStream], EndOfInput) newService =
     newService
       \<lparr>connectionStatus := (connectionStatus newService)\<lparr>lastEventTime := exampleTime\<rparr>,
        handlerCalls :=
          [OnConnectionStateChange CONNECTED, OnToken (tokenEvent (js ''Hel'')),
           OnConnectionStateChange DISCONNECTED],
        currentMessage := js ''Hel''\<rparr>
   \<and> state (connectionStatus (processStream exampleRuntime ([tokenOnlyStream], EndOfInput) newService))
       = DISCONNECTED
   \<and> error (connectionStatus (processStream exampleRuntime ([tokenOnlyStream], EndOfInput) newService))
       = None
   \<and> retryCount (connectionStatus (processStream exampleRuntime ([tokenOnlyStream], EndOfInput) newService))
       = 0
   \<and> retryTimeout (processStream exampleRuntime ([tokenOnlyStream], EndOfInput) newService) = None"
proof -
  have fields: "state (connectionStatus newService) = DISCONNECTED"
    "error (connectionStatus newService) = None"
    "retryCount (connectionStatus newService) = 0"
    "retryTimeout newService = None"
    by (simp_all add: newService_def createStreamingService_def)
  show ?thesis
    unfolding tokenOnly_result using fields by simp
qed

subsection \<open>The \<open>[DONE]\<close> line\<close>

text \<open>
  Claim C8, as the code has it. A data line whose payload is the literal \<open>[DONE]\<close>
  sets the connection state to \<open>disconnected\<close>, whatever \<open>JSON.parse\<close> would make of it
  and whether or not a \<open>done\<close> event arrives as well: nothing is dispatched for the line,
  no handler is called but \<open>onConnectionStateChange\<close> (when the state changes), and the
  accumulated message, sources, citations and claims stay as they were. The lines after
  it are still processed, from that state, and the connection state stays
  \<open>disconnected\<close> while they are.
\<close>

theorem done_line_disconnects:
  assumes "startsWith (trim line) (js ''data: '')" and "drop 6 (trim line) = js ''[DONE]''"
  shows "processSSELine rt t line s = updateConnectionState DISCONNECTED s
         \<and> state (connectionStatus (processSSELine rt t line s)) = DISCONNECTED
         \<and> handlerCalls (processSSELine rt t line s) =
             handlerCalls s
             @ (if state (connectionStatus s) = DISCONNECTED then []
                else [OnConnectionStateChange DISCONNECTED])
         \<and> currentMessage (processSSELine rt t line s) = currentMessage s
         \<and> currentSources (processSSELine rt t line s) = currentSources s
         \<and> currentCitations (processSSELine rt t line s) = currentCitations s
         \<and> currentClaims (processSSELine rt t line s) = currentClaims s
         \<and> currentClaimsGroup (processSSELine rt t line s) = currentClaimsGroup s
         \<and> processLines rt k (line # rest) s =
             processLines rt (Suc k) rest (updateConnectionState DISCONNECTED s)
         \<and> state (connectionStatus (processLines rt k (line # rest) s)) = DISCONNECTED"
proof -
  have eq: "processSSELine rt t line s = updateConnectionState DISCONNECTED s" for t
    using done_line [OF assms] by (rule processSSELine_DONE)
  have after: "state (connectionStatus
                 (processLines rt (Suc k) rest (updateConnectionState DISCONNECTED s)))
               = DISCONNECTED"
    by (rule processLines_keeps_disconnected) simp
  show ?thesis
    using after by (simp add: eq updateConnectionState_DISCONNECTED_fields)
qed

theorem done_line_disconnects_witness:
  "startsWith (trim (js ''data: [DONE]'')) (js ''data: '')
   \<and> drop 6 (trim (js ''data: [DONE]'')) = js ''[DONE]''
   \<and> processSSELine exampleRuntime exampleTime (js ''data: [DONE]'')
        (updateConnectionState CONNECTED newService)
       = updateConnectionState DISCONNECTED (updateConnectionState CONNECTED newService)
   \<and> handlerCalls (processSSELine exampleRuntime exampleTime (js ''data: [DONE]'')
        (updateConnectionState CONNECTED newService))
       = [OnConnectionStateChange CONNECTED, OnConnectionStateChange DISCONNECTED]
   \<and> state (connectionStatus (processLines exampleRuntime 0
        [js ''data: [DONE]'', [], js ''data: '' @ tokenPayload (js ''world''), []]
        (updateConnectionState CONNECTED newService))) = DISCONNECTED"
proof -
  have h1: "startsWith (trim (js ''data: [DONE]'')) (js ''data: '')"
    by (simp add: trim_def isWhiteSpace_def startsWith_def)
  have h2: "drop 6 (trim (js ''data: [DONE]'')) = js ''[DONE]''"
    by (simp add: trim_def isWhiteSpace_def)
  note inst = done_line_disconnects [OF h1 h2, of exampleRuntime exampleTime
      "updateConnectionState CONNECTED newService" 0
      "[[], js ''data: '' @ tokenPayload (js ''world''), []]"]
  have calls: "handlerCalls (processSSELine exampleRuntime exampleTime (js ''data: [DONE]'')
        (updateConnectionState CONNECTED newService))
       = [OnConnectionStateChange CONNECTED, OnConnectionStateChange DISCONNECTED]"
    using inst
    by (simp add: updateConnectionState_def callHandler_def newService_def
          createStreamingService_def)
  show ?thesis
    using h1 h2 inst calls by (intro conjI) (elim conjE, assumption)+
qed

theorem payload_dispatched_after_DONE_counterexample:
  "processStream exampleRuntime ([doneThenTokenStream], EndOfInput) newService =
     newService
       \<lparr>connectionStatus := (connectionStatus newService)\<lparr>lastEventTime := exampleTime\<rparr>,
        handlerCalls :=
          [OnConnectionStateChange CONNECTED, OnConnectionStateChange DISCONNECTED,
           OnToken (tokenEvent (js ''world''))],
        currentMessage := js ''world''\<rparr>
   \<and> getCurrentMessage (processStream exampleRuntime ([doneThenTokenStream], EndOfInput) newService)
       = js ''world''"
  unfolding doneThenToken_result by (simp add: getCurrentMessage_def)

subsection \<open>Malformed JSON\<close>

text \<open>
  Claim C9. For every data line whose payload \<open>JSON.parse\<close> rejects, processing the
  line changes nothing but to call \<open>onError\<close> once, with the code \<open>PARSE_ERROR\<close>; the
  lines before it have had their effect, and the lines after it are processed as usual,
  from the state that differs only by that one call.
\<close>

theorem malformed_line_reported_and_skipped:
  assumes "startsWith (trim line) (js ''data: '')"
    and "drop 6 (trim line) \<noteq> js ''[DONE]''"
    and "jsonParse rt (drop 6 (trim line)) = None"
  shows "processSSELine rt t line s =
           s\<lparr>handlerCalls := handlerCalls s @ [OnError parseErrorEvent]\<rparr>
         \<and> processLines rt k (before @ line # after) s =
             processLines rt (Suc (k + length before)) after
               ((processLines rt k before s)
                  \<lparr>handlerCalls := handlerCalls (processLines rt k before s)
                                   @ [OnError parseErrorEvent]\<rparr>)"
proof -
  have eq: "processSSELine rt t line s = s\<lparr>handlerCalls := handlerCalls s @ [OnError parseErrorEvent]\<rparr>"
    for t s
    using processSSELine_malformed [OF assms]
    by (simp add: parseErrorCaught_def callHandler_def parseErrorEvent_def)
  show ?thesis
    by (simp add: eq processLines_append)
qed

theorem malformed_line_reported_and_skipped_witness:
  "startsWith (trim (js ''data: '' @ malformedPayload)) (js ''data: '')
   \<and> drop 6 (trim (js ''data: '' @ malformedPayload)) \<noteq> js ''[DONE]''
   \<and> jsonParse exampleRuntime (drop 6 (trim (js ''data: '' @ malformedPayload))) = None
   \<and> processSSELine exampleRuntime exampleTime (js ''data: '' @ malformedPayload) newService =
       newService\<lparr>handlerCalls := [OnError parseErrorEvent]\<rparr>
   \<and> processStream exampleRuntime ([malformedStream], EndOfInput) newService =
       newService
         \<lparr>connectionStatus := (connectionStatus newService)\<lparr>lastEventTime := exampleTime\<rparr>,
          handlerCalls :=
            [OnConnectionStateChange CONNECTED, OnToken (tokenEvent (js ''Hel'')),
             OnError parseErrorEvent, OnToken (tokenEvent (js ''lo '')),
             OnConnectionStateChange DISCONNECTED],
          currentMessage := js ''Hello ''\<rparr>"
proof -
  have h1: "startsWith (trim (js ''data: '' @ malformedPayload)) (js ''data: '')"
    by (simp add: trim_def isWhiteSpace_def startsWith_def malformedPayload_def)
  have h2: "drop 6 (trim (js ''data: '' @ malformedPayload)) \<noteq> js ''[DONE]''"
    by (simp add: trim_def isWhiteSpace_def malformedPayload_def)
  have h3: "jsonParse exampleRuntime (drop 6 (trim (js ''data: '' @ malformedPayload))) = None"
    by (simp add: trim_def isWhiteSpace_def malformedPayload_def exampleRuntime_def
          exampleParse_def tokenPayload_def startPayload_def donePayload_def)
  have line: "processSSELine exampleRuntime exampleTime (js ''data: '' @ malformedPayload) newService =
       newService\<lparr>handlerCalls := [OnError parseErrorEvent]\<rparr>"
    using malformed_line_reported_and_skipped [OF h1 h2 h3, of exampleTime newService 0 "[]" "[]"]
    by (simp add: newService_def createStreamingService_def)
  show ?thesis
    using h1 h2 h3 line malformed_result by (intro conjI)
qed

end
